theory Spec2Isabelle
  imports Main "HOL-Library.Word"
begin

unbundle bit_operations_syntax

section \<open>The Windows Update provisioner (provisioner/update/provisioner.go)\<close>

text \<open>
  A shallow embedding of the provisioner: \<open>Prepare\<close>, \<open>Provision\<close>, \<open>uploadScript\<close>,
  \<open>runWindowsUpdate\<close>, \<open>getWindowsUpdateCommand\<close> and \<open>encodeUtf16Le\<close>.

  Go's \<open>string\<close> is a byte sequence and is modelled by \<open>string\<close> (a list of 8-bit
  \<open>char\<close>s); \<open>[]byte\<close> is a list of 8-bit words; \<open>uint\<close> and \<open>int\<close> counters are
  64-bit words (the constant 2147942501 in \<open>runWindowsUpdate\<close> only compiles where \<open>int\<close>
  has 64 bits); exit codes and durations, on which no arithmetic is done, are \<open>int\<close>.
\<close>

subsection \<open>Constants\<close>

type_synonym byte = "8 word"

type_synonym Duration = int \<comment> \<open>time.Duration: nanoseconds\<close>

definition Second :: Duration where
  "Second = 1000000000"

definition Minute :: Duration where
  "Minute = 60 * Second"

definition Hour :: Duration where
  "Hour = 60 * Minute"

definition DefaultRestartTimeout :: Duration where
  "DefaultRestartTimeout = 1 * Hour"

definition DefaultUploadRetryAttempts :: "64 word" where
  "DefaultUploadRetryAttempts = 5"

definition DefaultUploadRetryDelay :: Duration where
  "DefaultUploadRetryDelay = 30 * Second"

definition DefaultUploadTimeout :: Duration where
  "DefaultUploadTimeout = 5 * Minute"

definition DefaultUpdateRetryAttempts :: "64 word" where
  "DefaultUpdateRetryAttempts = 5"

definition DefaultUpdateTimeout :: Duration where
  "DefaultUpdateTimeout = 4 * Hour"

definition DefaultUpdateRetryDelay :: Duration where
  "DefaultUpdateRetryDelay = 10 * Second"

definition DefaultUpdateAttempts :: "64 word" where
  "DefaultUpdateAttempts = 3"

subsection \<open>Errors\<close>

text \<open>
  One constructor for each place where the package makes an error with \<open>fmt.Errorf\<close>,
  one for errors that come from outside the package (the operating system, the
  communicator, the context), carried by their message, and the two error types of the
  plugin SDK that the package returns: \<open>retry.RetryExhaustedError\<close>, which wraps the
  last error (a possibly nil interface value), and \<open>packer.MultiError\<close>.
\<close>

datatype error =
    ScriptEmpty \<comment> \<open>uploadScript, empty embedded script\<close>
  | FilePathNotPopulated \<comment> \<open>Provision, empty path after the upload\<close>
  | NonZeroExitStatus int \<comment> \<open>Provision, status code other than 0\<close>
  | PreparingScript string \<comment> \<open>uploadScript, os.CreateTemp failed\<close>
  | WritingTempFile string \<comment> \<open>uploadScript, WriteTo failed\<close>
  | ClosingTempFile string \<comment> \<open>uploadScript, Close failed\<close>
  | FilePathEmpty \<comment> \<open>runWindowsUpdate, empty path\<close>
  | UpdateExitStatus int \<comment> \<open>runWindowsUpdate, default case of the switch\<close>
  | InvalidCabFile string \<comment> \<open>Prepare\<close>
  | InvalidCategoryID string \<comment> \<open>Prepare\<close>
  | Foreign string \<comment> \<open>an error value made outside the package\<close>
  | RetryExhaustedError "error option"
  | MultiError "error list"

text \<open>
  The text of an error, \<open>err.Error()\<close>: the format strings are those of the source;
  \<open>%d\<close> prints an integer in decimal, \<open>%s\<close> an error by its text. The texts of the two
  SDK types are the SDK's.
\<close>

fun digitsOf :: "nat \<Rightarrow> string" where
  "digitsOf n =
     (if n < 10 then [char_of (48 + n)] else digitsOf (n div 10) @ [char_of (48 + n mod 10)])"

definition formatInt :: "int \<Rightarrow> string" where
  "formatInt i = (if i < 0 then CHR ''-'' # digitsOf (nat (- i)) else digitsOf (nat i))"

fun Join :: "string list \<Rightarrow> string \<Rightarrow> string" where \<comment> \<open>\<open>strings.Join\<close>\<close>
  "Join [] sep = []"
| "Join [x] sep = x"
| "Join (x # y # ys) sep = x @ sep @ Join (y # ys) sep"

fun Error :: "error \<Rightarrow> string" where
  "Error ScriptEmpty =
     ''contents within '' @ [CHR 0x27] @ ''Invoke-WinUpdate.ps1'' @ [CHR 0x27] @ '' are empty''"
| "Error FilePathNotPopulated =
     ''expected file path to be populated after uploading the Windows Update script, but it was empty''"
| "Error (NonZeroExitStatus statusCode) =
     ''Windows Update script exited with non-zero exit status: '' @ formatInt statusCode"
| "Error (PreparingScript msg) = ''error preparing elevated shell script: '' @ msg"
| "Error (WritingTempFile msg) = ''error writing content to temp file: '' @ msg"
| "Error (ClosingTempFile msg) = ''error closing temp file: '' @ msg"
| "Error FilePathEmpty = ''unable to run Windows Update script: file path is empty''"
| "Error (UpdateExitStatus exitStatus) =
     ''Windows update script exited with non-zero exit status: '' @ formatInt exitStatus"
| "Error (InvalidCabFile cabFile) = ''invalid file path for provided cab file: '' @ cabFile"
| "Error (InvalidCategoryID categoryID) = ''invalid Windows Category UUID format: '' @ categoryID"
| "Error (Foreign msg) = msg"
| "Error (RetryExhaustedError None) = ''<nil>''"
| "Error (RetryExhaustedError (Some e)) = ''retry count exhausted. Last err: '' @ Error e"
| "Error (MultiError es) =
     formatInt (int (length es)) @ '' error(s) occurred:'' @ [CHR 0x0A, CHR 0x0A] @
     Join (map (\<lambda>e. ''* '' @ Error e) es) [CHR 0x0A]"

text \<open>
  The errors \<open>uploadScript\<close> makes: the empty script, the three failures of an attempt,
  and the \<open>RetryExhaustedError\<close> of \<open>Run\<close>.
\<close>

fun stagingFailure :: "error \<Rightarrow> bool" where
  "stagingFailure ScriptEmpty = True"
| "stagingFailure (PreparingScript msg) = True"
| "stagingFailure (WritingTempFile msg) = True"
| "stagingFailure (ClosingTempFile msg) = True"
| "stagingFailure (RetryExhaustedError e) = True"
| "stagingFailure _ = False"

subsection \<open>Configuration and Prepare\<close>

text \<open>A nil slice is \<open>None\<close>; \<open>CabFiles != nil\<close> is \<open>CabFiles c \<noteq> None\<close>.\<close>

record Config =
  Username :: string
  Password :: string
  CategoryIDs :: "string list option"
  CabFiles :: "string list option"
  InstallAllUpdates :: bool
  IncludeHiddenUpdates :: bool
  InstallOptionalUpdates :: bool
  InstallRecommendedUpdates :: bool
  InstallImportantUpdates :: bool
  UpdateTimeout :: Duration
  UpdateRetryAttempts :: "64 word"
  UploadRetryAttempts :: "64 word"
  UploadRetryDelay :: Duration
  UploadTimeout :: Duration
  RestartTimeout :: Duration
  DisableRestartAfterUpdates :: bool

text \<open>
  The first part of \<open>Prepare\<close> after a successful \<open>config.Decode\<close>: the six defaults,
  in the order of the source. \<open>UploadRetryAttempts\<close> and \<open>UpdateRetryAttempts\<close> are
  \<open>uint\<close>, so \<open>\<le> 0\<close> is the unsigned comparison of the source.
\<close>

definition applyDefaults :: "Config \<Rightarrow> Config" where
  "applyDefaults c0 =
    (let c1 = (if UploadRetryAttempts c0 \<le> 0
               then c0\<lparr>UploadRetryAttempts := DefaultUploadRetryAttempts\<rparr> else c0);
         c2 = (if UploadRetryDelay c1 \<le> 0
               then c1\<lparr>UploadRetryDelay := DefaultUploadRetryDelay\<rparr> else c1);
         c3 = (if UploadTimeout c2 \<le> 0
               then c2\<lparr>UploadTimeout := DefaultUploadTimeout\<rparr> else c2);
         c4 = (if RestartTimeout c3 \<le> 0
               then c3\<lparr>RestartTimeout := DefaultRestartTimeout\<rparr> else c3);
         c5 = (if UpdateRetryAttempts c4 \<le> 0
               then c4\<lparr>UpdateRetryAttempts := DefaultUpdateRetryAttempts\<rparr> else c4);
         c6 = (if UpdateTimeout c5 \<le> 0
               then c5\<lparr>UpdateTimeout := DefaultUpdateTimeout\<rparr> else c5)
     in c6)"

definition specifiedUpdates :: "Config \<Rightarrow> bool" where
  "specifiedUpdates c =
    (InstallImportantUpdates c \<or> InstallOptionalUpdates c \<or> InstallRecommendedUpdates c \<or>
     CabFiles c \<noteq> None \<or> CategoryIDs c \<noteq> None)"

text \<open>
  The two validation loops. \<open>filepath.Abs\<close> and \<open>uuid.Parse\<close> are library functions:
  \<open>absFails\<close> and \<open>parseFails\<close> say for which strings they return an error.
\<close>

definition cabFileErrors :: "(string \<Rightarrow> bool) \<Rightarrow> Config \<Rightarrow> error list" where
  "cabFileErrors absFails c =
    (case CabFiles c of
       None \<Rightarrow> []
     | Some fs \<Rightarrow> map InvalidCabFile (filter absFails fs))"

definition categoryIDErrors :: "(string \<Rightarrow> bool) \<Rightarrow> Config \<Rightarrow> error list" where
  "categoryIDErrors parseFails c =
    (case CategoryIDs c of
       None \<Rightarrow> []
     | Some ids \<Rightarrow> map InvalidCategoryID (filter parseFails ids))"

text \<open>
  \<open>Prepare\<close>: \<open>decoded\<close> is the configuration as \<open>config.Decode\<close> left it and \<open>decodeErr\<close>
  the error it returned. The result is the provisioner's configuration afterwards and
  the error returned.
\<close>

definition Prepare ::
  "(string \<Rightarrow> bool) \<Rightarrow> (string \<Rightarrow> bool) \<Rightarrow> Config \<Rightarrow> error option \<Rightarrow> Config \<times> error option"
where
  "Prepare absFails parseFails decoded decodeErr =
    (case decodeErr of
       Some e \<Rightarrow> (decoded, Some e)
     | None \<Rightarrow>
        (let c = applyDefaults decoded;
             c' = (if \<not> specifiedUpdates c then c\<lparr>InstallAllUpdates := True\<rparr> else c);
             errs = cabFileErrors absFails c' @ categoryIDErrors parseFails c'
         in if length errs > 0 then (c', Some (MultiError errs)) else (c', None)))"

subsection \<open>The command line: UTF-8 to UTF-16LE to base64\<close>

text \<open>
  \<open>[]rune(s)\<close> decodes the bytes of \<open>s\<close> as UTF-8. The conversion is the Go runtime's
  (\<open>decoderune\<close> in runtime/utf8.go, behind a fast path for bytes below 0x80): a byte
  that starts no well-formed, shortest-form sequence of a code point gives U+FFFD and
  is skipped alone. \<open>decoderune\<close> returns the rune and the number of bytes it read.
  A rune is an \<open>int32\<close>; the values built here are below \<open>2 ^ 21\<close>.
\<close>

type_synonym rune = int

definition runeError :: rune where
  "runeError = 0xFFFD"

definition cont :: "byte \<Rightarrow> bool" where \<comment> \<open>\<open>locb <= b && b <= hicb\<close>\<close>
  "cont b = (0x80 \<le> b \<and> b \<le> 0xBF)"

definition decode2 :: "byte \<Rightarrow> byte \<Rightarrow> rune" where
  "decode2 b0 b1 = push_bit 6 (uint (b0 AND 0x1F)) OR uint (b1 AND 0x3F)"

definition decode3 :: "byte \<Rightarrow> byte \<Rightarrow> byte \<Rightarrow> rune" where
  "decode3 b0 b1 b2 =
     push_bit 12 (uint (b0 AND 0x0F)) OR push_bit 6 (uint (b1 AND 0x3F)) OR uint (b2 AND 0x3F)"

definition decode4 :: "byte \<Rightarrow> byte \<Rightarrow> byte \<Rightarrow> byte \<Rightarrow> rune" where
  "decode4 b0 b1 b2 b3 =
     push_bit 18 (uint (b0 AND 0x07)) OR push_bit 12 (uint (b1 AND 0x3F)) OR
     push_bit 6 (uint (b2 AND 0x3F)) OR uint (b3 AND 0x3F)"

definition decoderune :: "byte list \<Rightarrow> rune \<times> nat" where
  "decoderune s =
    (case s of
       [] \<Rightarrow> (runeError, 1)
     | b0 # bs \<Rightarrow>
        (if 0xC0 \<le> b0 \<and> b0 < 0xE0 then
           (case bs of
              b1 # _ \<Rightarrow>
                if cont b1 \<and> 0x7F < decode2 b0 b1 then (decode2 b0 b1, 2) else (runeError, 1)
            | _ \<Rightarrow> (runeError, 1))
         else if 0xE0 \<le> b0 \<and> b0 < 0xF0 then
           (case bs of
              b1 # b2 # _ \<Rightarrow>
                if cont b1 \<and> cont b2 \<and> 0x7FF < decode3 b0 b1 b2 \<and>
                   \<not> (0xD800 \<le> decode3 b0 b1 b2 \<and> decode3 b0 b1 b2 \<le> 0xDFFF)
                then (decode3 b0 b1 b2, 3) else (runeError, 1)
            | _ \<Rightarrow> (runeError, 1))
         else if 0xF0 \<le> b0 \<and> b0 < 0xF8 then
           (case bs of
              b1 # b2 # b3 # _ \<Rightarrow>
                if cont b1 \<and> cont b2 \<and> cont b3 \<and> 0xFFFF < decode4 b0 b1 b2 b3 \<and>
                   decode4 b0 b1 b2 b3 \<le> 0x10FFFF
                then (decode4 b0 b1 b2 b3, 4) else (runeError, 1)
            | _ \<Rightarrow> (runeError, 1))
         else (runeError, 1)))"

text \<open>The conversion \<open>[]rune(s)\<close>: a byte below 0x80 is its own rune.\<close>

fun runes :: "byte list \<Rightarrow> rune list" where
  "runes [] = []"
| "runes (b # bs) =
    (if b < 0x80 then uint b # runes bs
     else fst (decoderune (b # bs)) # runes (drop (snd (decoderune (b # bs)) - 1) bs))"

definition bytes_of :: "string \<Rightarrow> byte list" where
  "bytes_of s = map of_char s"

text \<open>
  \<open>utf16.Encode\<close> and \<open>utf16.EncodeRune\<close> of the Go library: a code point of the
  basic plane that is no surrogate is one unit, a code point from 0x10000 to 0x10FFFF
  a surrogate pair, any other rune U+FFFD.
\<close>

definition EncodeRune :: "rune \<Rightarrow> rune \<times> rune" where
  "EncodeRune r =
    (if r < 0x10000 \<or> r > 0x10FFFF then (0xFFFD, 0xFFFD)
     else (0xD800 + (drop_bit 10 (r - 0x10000) AND 0x3FF), 0xDC00 + ((r - 0x10000) AND 0x3FF)))"

definition RuneLen :: "rune \<Rightarrow> int" where
  "RuneLen r =
    (if (0 \<le> r \<and> r < 0xD800) \<or> (0xE000 \<le> r \<and> r < 0x10000) then 1
     else if 0x10000 \<le> r \<and> r \<le> 0x10FFFF then 2
     else -1)"

fun Encode :: "rune list \<Rightarrow> 16 word list" where
  "Encode [] = []"
| "Encode (v # s) =
    (if RuneLen v = 1 then word_of_int v # Encode s
     else if RuneLen v = 2 then
       word_of_int (fst (EncodeRune v)) # word_of_int (snd (EncodeRune v)) # Encode s
     else 0xFFFD # Encode s)"

text \<open>
  \<open>encodeUtf16Le\<close>: each unit \<open>r\<close> of \<open>d\<close> gives \<open>byte(r)\<close> at \<open>2 * i\<close> and
  \<open>byte(r >> 8)\<close> at \<open>2 * i + 1\<close>.
\<close>

fun unitsLe :: "16 word list \<Rightarrow> byte list" where
  "unitsLe [] = []"
| "unitsLe (r # d) = ucast r # ucast (drop_bit 8 r) # unitsLe d"

definition encodeUtf16Le :: "string \<Rightarrow> byte list" where
  "encodeUtf16Le s = unitsLe (Encode (runes (bytes_of s)))"

text \<open>
  \<open>base64.StdEncoding.EncodeToString\<close> of the Go library: three bytes give a 24-bit
  value in a \<open>uint\<close> and four letters of the alphabet; one or two bytes left over give
  two or three letters and padding with \<open>=\<close>.
\<close>

definition encodeStd :: string where
  "encodeStd = ''ABCDEFGHIJKLMNOPQRSTUVWXYZabcdefghijklmnopqrstuvwxyz0123456789+/''"

definition encodeChar :: "64 word \<Rightarrow> char" where
  "encodeChar i = encodeStd ! unat i"

definition val3 :: "byte \<Rightarrow> byte \<Rightarrow> byte \<Rightarrow> 64 word" where
  "val3 a b c = push_bit 16 (ucast a) OR push_bit 8 (ucast b) OR ucast c"

definition val2 :: "byte \<Rightarrow> byte \<Rightarrow> 64 word" where
  "val2 a b = push_bit 16 (ucast a) OR push_bit 8 (ucast b)"

definition val1 :: "byte \<Rightarrow> 64 word" where
  "val1 a = push_bit 16 (ucast a)"

fun EncodeToString :: "byte list \<Rightarrow> string" where
  "EncodeToString (a # b # c # src) =
     encodeChar (drop_bit 18 (val3 a b c) AND 0x3F) #
     encodeChar (drop_bit 12 (val3 a b c) AND 0x3F) #
     encodeChar (drop_bit 6 (val3 a b c) AND 0x3F) #
     encodeChar (val3 a b c AND 0x3F) # EncodeToString src"
| "EncodeToString [a, b] =
     [encodeChar (drop_bit 18 (val2 a b) AND 0x3F),
      encodeChar (drop_bit 12 (val2 a b) AND 0x3F),
      encodeChar (drop_bit 6 (val2 a b) AND 0x3F), CHR ''='']"
| "EncodeToString [a] =
     [encodeChar (drop_bit 18 (val1 a) AND 0x3F),
      encodeChar (drop_bit 12 (val1 a) AND 0x3F), CHR ''='', CHR ''='']"
| "EncodeToString [] = []"

definition commandPrefix :: string where
  "commandPrefix =
     ''PowerShell -ExecutionPolicy Bypass -NoProfile -OutputFormat Text -EncodedCommand ''"

definition getWindowsUpdateCommand :: "string \<Rightarrow> string" where
  "getWindowsUpdateCommand script = commandPrefix @ EncodeToString (encodeUtf16Le script)"

subsection \<open>What the specification asks of the command line\<close>

text \<open>
  The two functions of the specification's round trip, written from its words and not
  from the code. \<open>utf16le_bytes\<close>: a printable ASCII character is one 16-bit unit, its
  code, laid out low byte first; no byte order mark. \<open>decode_b64\<close>: standard base64
  decoding (RFC 4648, padded), \<open>None\<close> for a text that is no base64.
\<close>

definition printable_ascii :: "string \<Rightarrow> bool" where
  "printable_ascii s = list_all (\<lambda>c. 0x20 \<le> (of_char c :: nat) \<and> (of_char c :: nat) \<le> 0x7E) s"

definition utf16le_bytes :: "string \<Rightarrow> byte list" where
  "utf16le_bytes s = concat (map (\<lambda>c. [of_char c, 0]) s)"

definition b64_value :: "char \<Rightarrow> 64 word option" where
  "b64_value c =
     (if c \<in> set encodeStd then Some (word_of_nat (length (takeWhile (\<lambda>d. d \<noteq> c) encodeStd)))
      else None)"

definition sextets :: "64 word \<Rightarrow> 64 word \<Rightarrow> 64 word \<Rightarrow> 64 word \<Rightarrow> 64 word" where
  "sextets s0 s1 s2 s3 = push_bit 18 s0 OR push_bit 12 s1 OR push_bit 6 s2 OR s3"

fun decode_b64 :: "string \<Rightarrow> byte list option" where
  "decode_b64 [] = Some []"
| "decode_b64 (c0 # c1 # c2 # c3 # cs) =
    (case (b64_value c0, b64_value c1) of
       (Some s0, Some s1) \<Rightarrow>
         if c2 = CHR ''='' \<and> c3 = CHR ''='' \<and> cs = [] then
           Some [ucast (drop_bit 16 (sextets s0 s1 0 0))]
         else (case b64_value c2 of
            Some s2 \<Rightarrow>
              if c3 = CHR ''='' \<and> cs = [] then
                Some [ucast (drop_bit 16 (sextets s0 s1 s2 0)),
                      ucast (drop_bit 8 (sextets s0 s1 s2 0))]
              else (case (b64_value c3, decode_b64 cs) of
                 (Some s3, Some bs) \<Rightarrow>
                   Some (ucast (drop_bit 16 (sextets s0 s1 s2 s3)) #
                         ucast (drop_bit 8 (sextets s0 s1 s2 s3)) #
                         ucast (sextets s0 s1 s2 s3) # bs)
               | _ \<Rightarrow> None)
          | None \<Rightarrow> None)
     | _ \<Rightarrow> None)"
| "decode_b64 _ = None"

text \<open>The argument of \<open>-EncodedCommand\<close>: the command line after its fixed words.\<close>

definition encodedCommand :: "string \<Rightarrow> string" where
  "encodedCommand command = drop (length commandPrefix) command"

subsection \<open>The world around the provisioner\<close>

text \<open>
  What the operating system, the communicator and the clock do is not decided by the
  provisioner. An environment fixes it for one run: the outcome of the \<open>i\<close>-th call
  of \<open>os.CreateTemp\<close> (an error message or the name of the new file) and of the write
  and the close that follow it, the outcome of the \<open>i\<close>-th remote run, and, for the
  \<open>i\<close>-th \<open>select\<close> statement of a retry loop, whether the context is done and
  whether the timer of the loop has fired. Every sequence of outcomes is some
  environment.
\<close>

datatype write_result = Written | WriteFailed nat string
  \<comment> \<open>all bytes written, or an error after so many bytes\<close>

datatype finish = RunFailed string | RunExited int
  \<comment> \<open>\<open>RunWithUi\<close> returned an error, or the command ended with an exit status\<close>

record remote_run =
  run_stdout :: "byte list" \<comment> \<open>what the run wrote to \<open>cmd.Stdout\<close>\<close>
  run_stderr :: "byte list" \<comment> \<open>what the run wrote to \<open>cmd.Stderr\<close>\<close>
  run_finish :: finish

record env =
  createTemp :: "nat \<Rightarrow> string + string"
  writeTo :: "nat \<Rightarrow> write_result"
  closeTemp :: "nat \<Rightarrow> string option"
  runWithUi :: "nat \<Rightarrow> remote_run"
  ctxDone :: "nat \<Rightarrow> bool"
  uploadTimer :: "nat \<Rightarrow> bool"
  updateTimer :: "nat \<Rightarrow> bool"

text \<open>
  The state the provisioner acts on: the messages given to \<open>ui.Say\<close>, the local
  files, the number of calls of \<open>os.CreateTemp\<close>, the commands handed to the
  communicator (one entry for each call of \<open>RunWithUi\<close>) and the number of \<open>select\<close>
  statements executed.
\<close>

record world =
  said :: "string list"
  files :: "string \<rightharpoonup> byte list"
  tempCalls :: nat
  started :: "string list"
  polls :: nat

definition Say :: "string \<Rightarrow> world \<Rightarrow> world" where
  "Say msg w = w\<lparr>said := said w @ [msg]\<rparr>"

subsection \<open>retry.Config.Run of the plugin SDK\<close>

text \<open>
  The fields of \<open>retry.Config\<close> that decide what \<open>Run\<close> returns. \<open>RetryDelay\<close> only
  sets how long the loop sleeps between two attempts. \<open>Tries\<close> is an \<open>int\<close> made from a
  \<open>uint\<close> by \<open>int(...)\<close>, which keeps the 64 bits.
\<close>

record RetryConfig =
  StartTimeout :: Duration
  Tries :: "64 word"
  ShouldRetry :: "(error \<Rightarrow> bool) option"

definition shouldRetry :: "RetryConfig \<Rightarrow> error \<Rightarrow> bool" where
  "shouldRetry cfg e = (case ShouldRetry cfg of None \<Rightarrow> True | Some f \<Rightarrow> f e)"

definition selectDone :: "env \<Rightarrow> (nat \<Rightarrow> bool) \<Rightarrow> RetryConfig \<Rightarrow> world \<Rightarrow> bool" where
  "selectDone E timer cfg w = (ctxDone E (polls w) \<or> (StartTimeout cfg \<noteq> 0 \<and> timer (polls w)))"

definition polled :: "world \<Rightarrow> world" where
  "polled w = w\<lparr>polls := polls w + 1\<rparr>"

text \<open>
  Modelled from the spec: \<open>retry.Config.Run\<close> belongs to the plugin SDK, whose source is
  not part of the repository. The model follows section 4.1 of the specification and the
  SDK's documented behaviour: \<open>Tries = 0\<close> means no bound on the attempts, a
  \<open>StartTimeout\<close> of 0 means no timer, a nil \<open>ShouldRetry\<close> retries every error. The
  loop counts \<open>try\<close> from 0 (an \<open>int\<close>: \<open>try++\<close> wraps around); when \<open>Tries\<close> is not 0
  and \<open>try\<close> has reached it, the result is a \<open>RetryExhaustedError\<close> around the last
  error; an attempt without error ends the loop with nil; after a failed attempt a
  \<open>select\<close> returns the attempt's error if the context is done or the timer has fired,
  and otherwise the loop sleeps and tries again. The loop need not end: the result is an
  \<open>option\<close>, \<open>None\<close> for a run that never returns.

  The attempt \<open>fn\<close> is a closure: it acts on the variables it captures (\<open>'l\<close>) and on
  the world. \<open>Run_from\<close> is the loop from a value of \<open>try\<close> and of the last error on;
  \<open>Run\<close> starts it at 0 with no error.
\<close>

partial_function (option) Run_from ::
  "env \<Rightarrow> (nat \<Rightarrow> bool) \<Rightarrow> RetryConfig \<Rightarrow> ('l \<times> world \<Rightarrow> error option \<times> 'l \<times> world) \<Rightarrow>
   64 word \<Rightarrow> error option \<Rightarrow> 'l \<times> world \<Rightarrow> (error option \<times> 'l \<times> world) option"
where
  "Run_from E timer cfg fn try err s =
    (if Tries cfg \<noteq> 0 \<and> try = Tries cfg then Some (Some (RetryExhaustedError err), s)
     else
       (case fn s of
          (None, s') \<Rightarrow> Some (None, s')
        | (Some e, l', w') \<Rightarrow>
            if \<not> shouldRetry cfg e then Some (Some e, l', w')
            else if selectDone E timer cfg w' then Some (Some e, l', polled w')
            else Run_from E timer cfg fn (try + 1) (Some e) (l', polled w')))"

definition Run ::
  "env \<Rightarrow> (nat \<Rightarrow> bool) \<Rightarrow> RetryConfig \<Rightarrow> ('l \<times> world \<Rightarrow> error option \<times> 'l \<times> world) \<Rightarrow>
   'l \<times> world \<Rightarrow> (error option \<times> 'l \<times> world) option"
where
  "Run E timer cfg fn s = Run_from E timer cfg fn 0 None s"

subsection \<open>uploadScript\<close>

text \<open>
  One attempt of the upload: the closure passed to \<open>Run\<close>. It captures \<open>filePath\<close>.
  \<open>os.CreateTemp\<close> makes an empty file; \<open>WriteTo\<close> writes the script, or a part of it
  when it fails.
\<close>

definition uploadAttempt ::
  "env \<Rightarrow> byte list \<Rightarrow> string \<times> world \<Rightarrow> error option \<times> string \<times> world"
where
  "uploadAttempt E script = (\<lambda>(filePath, w).
    (let i = tempCalls w; w1 = w\<lparr>tempCalls := i + 1\<rparr> in
     case createTemp E i of
       Inl msg \<Rightarrow> (Some (PreparingScript msg), filePath, w1)
     | Inr name \<Rightarrow>
        (let w2 = w1\<lparr>files := (files w1)(name \<mapsto> [])\<rparr> in
         case writeTo E i of
           WriteFailed n msg \<Rightarrow>
             (Some (WritingTempFile msg), name, w2\<lparr>files := (files w2)(name \<mapsto> take n script)\<rparr>)
         | Written \<Rightarrow>
            (let w3 = w2\<lparr>files := (files w2)(name \<mapsto> script)\<rparr> in
             case closeTemp E i of
               Some msg \<Rightarrow> (Some (ClosingTempFile msg), name, w3)
             | None \<Rightarrow> (None, name, w3)))))"

definition uploadRetry :: "Config \<Rightarrow> RetryConfig" where
  "uploadRetry c =
     \<lparr>StartTimeout = UploadTimeout c, Tries = UploadRetryAttempts c, ShouldRetry = None\<rparr>"

definition uploadScript ::
  "env \<Rightarrow> Config \<Rightarrow> byte list \<Rightarrow> world \<Rightarrow> ((string \<times> error option) \<times> world) option"
where
  "uploadScript E c script w =
    (let w0 = Say ''Creating/Uploading Windows Update script to specified target.'' w in
     if length script = 0 then Some (([], Some ScriptEmpty), w0)
     else
       (case Run E (uploadTimer E) (uploadRetry c) (uploadAttempt E script) ([], w0) of
          None \<Rightarrow> None
        | Some (err, filePath, w') \<Rightarrow> Some ((filePath, err), w')))"

subsection \<open>runWindowsUpdate\<close>

text \<open>The variables the closure of \<open>runWindowsUpdate\<close> captures.\<close>

record updateVars =
  scriptOutput :: "byte list"
  scriptErrors :: "byte list"
  exitStatus :: int

text \<open>
  One attempt: \<open>RunWithUi\<close> hands the command to the communicator; what the run
  writes goes to the ends of the two buffers; an error of \<open>RunWithUi\<close> is returned as it
  is, and \<open>exitStatus\<close> is assigned only when there is none.
\<close>

definition updateAttempt ::
  "env \<Rightarrow> string \<Rightarrow> updateVars \<times> world \<Rightarrow> error option \<times> updateVars \<times> world"
where
  "updateAttempt E command = (\<lambda>(v, w).
    (let r = runWithUi E (length (started w));
         w1 = w\<lparr>started := started w @ [command]\<rparr>;
         v1 = v\<lparr>scriptOutput := scriptOutput v @ run_stdout r,
                scriptErrors := scriptErrors v @ run_stderr r\<rparr>
     in case run_finish r of
          RunFailed msg \<Rightarrow> (Some (Foreign msg), v1, w1)
        | RunExited status \<Rightarrow>
           (let v2 = v1\<lparr>exitStatus := status\<rparr> in
            if status = 0 then (None, v2, w1)
            else if status = 101 then (None, v2, w1)
            else if status = 2147942501 then (None, v2, w1)
            else (Some (UpdateExitStatus status), v2, w1))))"

definition updateRetry :: "Config \<Rightarrow> RetryConfig" where
  "updateRetry c =
     \<lparr>StartTimeout = UpdateTimeout c, Tries = UpdateRetryAttempts c, ShouldRetry = None\<rparr>"

text \<open>
  \<open>runWindowsUpdate_vars\<close> is \<open>runWindowsUpdate\<close> together with the captured variables
  as they are when it returns; \<open>runWindowsUpdate\<close> returns \<open>exitStatus\<close> and the error.
\<close>

definition runWindowsUpdate_vars ::
  "env \<Rightarrow> Config \<Rightarrow> string \<Rightarrow> world \<Rightarrow> ((int \<times> error option) \<times> updateVars \<times> world) option"
where
  "runWindowsUpdate_vars E c script w =
    (let w0 = Say ''Running Windows update...'' w;
         v0 = \<lparr>scriptOutput = [], scriptErrors = [], exitStatus = 0\<rparr> in
     if length script = 0 then Some ((1, Some FilePathEmpty), v0, w0)
     else
       (case Run E (updateTimer E) (updateRetry c)
               (updateAttempt E (getWindowsUpdateCommand script)) (v0, w0) of
          None \<Rightarrow> None
        | Some (err, v, w') \<Rightarrow> Some ((exitStatus v, err), v, w')))"

definition runWindowsUpdate ::
  "env \<Rightarrow> Config \<Rightarrow> string \<Rightarrow> world \<Rightarrow> ((int \<times> error option) \<times> world) option"
where
  "runWindowsUpdate E c script w =
     map_option (\<lambda>(r, v, w'). (r, w')) (runWindowsUpdate_vars E c script w)"

subsection \<open>Provision\<close>

definition Provision ::
  "env \<Rightarrow> Config \<Rightarrow> byte list \<Rightarrow> world \<Rightarrow> (error option \<times> world) option"
where
  "Provision E c script w =
    (let w0 = Say ''Starting Windows Update Provisioner.'' w in
     case uploadScript E c script w0 of
       None \<Rightarrow> None
     | Some ((filePath, err), w1) \<Rightarrow>
         if err \<noteq> None then Some (err, w1)
         else if length filePath = 0 then Some (Some FilePathNotPopulated, w1)
         else
          (let w2 = Say (''Successfully created Windows Update script: '' @ filePath) w1 in
           case runWindowsUpdate E c filePath w2 of
             None \<Rightarrow> None
           | Some ((statusCode, err'), w3) \<Rightarrow>
               if err' \<noteq> None then Some (err', w3)
               else if statusCode \<noteq> 0 then Some (Some (NonZeroExitStatus statusCode), w3)
               else Some (None, w3)))"

subsection \<open>Reading a run\<close>

text \<open>
  Words to state the properties with. The remote runs between two worlds are the
  outcomes the environment gave to the calls of \<open>RunWithUi\<close> made from the first world
  to the second; the exit codes observed are those of the runs that ended with a status;
  a run succeeded when its status is one of the three that the switch of
  \<open>runWindowsUpdate\<close> answers with nil; \<open>attemptError\<close> is the error of a run that did
  not. Likewise for the temporary files created between two worlds.
\<close>

definition successCode :: "int \<Rightarrow> bool" where
  "successCode status = (status = 0 \<or> status = 101 \<or> status = 2147942501)"

definition succeeded :: "remote_run \<Rightarrow> bool" where
  "succeeded r = (case run_finish r of RunExited status \<Rightarrow> successCode status | RunFailed _ \<Rightarrow> False)"

definition attemptError :: "remote_run \<Rightarrow> error" where
  "attemptError r =
     (case run_finish r of RunExited status \<Rightarrow> UpdateExitStatus status | RunFailed msg \<Rightarrow> Foreign msg)"

definition runs :: "env \<Rightarrow> world \<Rightarrow> world \<Rightarrow> remote_run list" where
  "runs E w w' = map (runWithUi E) [length (started w)..<length (started w')]"

definition observed :: "remote_run list \<Rightarrow> int list" where
  "observed rs =
     concat (map (\<lambda>r. case run_finish r of RunExited status \<Rightarrow> [status] | RunFailed _ \<Rightarrow> []) rs)"

definition created :: "env \<Rightarrow> world \<Rightarrow> world \<Rightarrow> string list" where
  "created E w w' =
     concat (map (\<lambda>i. case createTemp E i of Inr name \<Rightarrow> [name] | Inl _ \<Rightarrow> [])
       [tempCalls w..<tempCalls w'])"

definition neverDone :: "env \<Rightarrow> (nat \<Rightarrow> bool) \<Rightarrow> bool" where
  "neverDone E timer = (\<forall>i. \<not> ctxDone E i \<and> \<not> timer i)"

text \<open>Two worlds that differ at most in the contents of the local files.\<close>

definition sameButFiles :: "world \<Rightarrow> world \<Rightarrow> bool" where
  "sameButFiles w w2 =
     (said w = said w2 \<and> tempCalls w = tempCalls w2 \<and> started w = started w2 \<and> polls w = polls w2)"

subsection \<open>A first environment, world and configuration\<close>

text \<open>
  Concrete inputs for the examples: an environment in which every temporary file is
  created as \<open>/tmp/Invoke-WinUpdate1.ps1\<close> and written, every remote run ends with
  status 0 and no output, and nothing is ever cancelled or timed out; the world before
  anything happened; the configuration \<open>Prepare\<close> makes from an empty one.
\<close>

definition calmEnv :: env where
  "calmEnv =
     \<lparr>createTemp = (\<lambda>i. Inr ''/tmp/Invoke-WinUpdate1.ps1''),
      writeTo = (\<lambda>i. Written),
      closeTemp = (\<lambda>i. None),
      runWithUi = (\<lambda>i. \<lparr>run_stdout = [], run_stderr = [], run_finish = RunExited 0\<rparr>),
      ctxDone = (\<lambda>i. False),
      uploadTimer = (\<lambda>i. False),
      updateTimer = (\<lambda>i. False)\<rparr>"

definition newWorld :: world where
  "newWorld = \<lparr>said = [], files = Map.empty, tempCalls = 0, started = [], polls = 0\<rparr>"

definition emptyConfig :: Config where
  "emptyConfig =
     \<lparr>Username = [], Password = [], CategoryIDs = None, CabFiles = None,
      InstallAllUpdates = False, IncludeHiddenUpdates = False, InstallOptionalUpdates = False,
      InstallRecommendedUpdates = False, InstallImportantUpdates = False,
      UpdateTimeout = 0, UpdateRetryAttempts = 0, UploadRetryAttempts = 0,
      UploadRetryDelay = 0, UploadTimeout = 0, RestartTimeout = 0,
      DisableRestartAfterUpdates = False\<rparr>"

definition preparedConfig :: Config where
  "preparedConfig = applyDefaults emptyConfig"

definition exits :: "int \<Rightarrow> remote_run" where
  "exits status = \<lparr>run_stdout = [], run_stderr = [], run_finish = RunExited status\<rparr>"

text \<open>Variations: what the remote runs do, and a path for the script.\<close>

definition exitEnv :: "int \<Rightarrow> env" where \<comment> \<open>every remote run ends with this status\<close>
  "exitEnv status = calmEnv\<lparr>runWithUi := (\<lambda>i. exits status)\<rparr>"

definition lostEnv :: env where \<comment> \<open>every remote run fails in the communicator\<close>
  "lostEnv =
     calmEnv\<lparr>runWithUi :=
       (\<lambda>i. \<lparr>run_stdout = [], run_stderr = [], run_finish = RunFailed ''connection lost''\<rparr>)\<rparr>"

definition noisyEnv :: env where \<comment> \<open>a failed run with output, then a run that succeeds\<close>
  "noisyEnv =
     calmEnv\<lparr>runWithUi :=
       (\<lambda>i. if i = 0 then \<lparr>run_stdout = [1, 2], run_stderr = [9], run_finish = RunExited 5\<rparr>
             else \<lparr>run_stdout = [3], run_stderr = [8, 7], run_finish = RunExited 0\<rparr>)\<rparr>"

definition fullDiskEnv :: env where \<comment> \<open>every write to a temporary file fails\<close>
  "fullDiskEnv = calmEnv\<lparr>writeTo := (\<lambda>i. WriteFailed 0 ''no space left on device'')\<rparr>"

definition namelessEnv :: env where \<comment> \<open>temporary files come back with an empty name\<close>
  "namelessEnv = calmEnv\<lparr>createTemp := (\<lambda>i. Inr [])\<rparr>"

definition tempPath :: string where
  "tempPath = ''/tmp/Invoke-WinUpdate1.ps1''"

section \<open>Properties\<close>

subsection \<open>The retry loop\<close>

text \<open>
  An induction rule for the runs of the loop that return: one case for each way out of
  an iteration, and one for the iteration that goes round again.
\<close>

lemma Run_from_induct [consumes 1, case_names exhausted success noRetry stopped again]:
  assumes run: "Run_from E timer cfg fn k err s = Some y"
    and exhausted: "\<And>k err s. Tries cfg \<noteq> 0 \<Longrightarrow> k = Tries cfg \<Longrightarrow>
           P k err s (Some (RetryExhaustedError err), s)"
    and success: "\<And>k err s s'. \<not> (Tries cfg \<noteq> 0 \<and> k = Tries cfg) \<Longrightarrow>
           fn s = (None, s') \<Longrightarrow> P k err s (None, s')"
    and noRetry: "\<And>k err s e l' w'. \<not> (Tries cfg \<noteq> 0 \<and> k = Tries cfg) \<Longrightarrow>
           fn s = (Some e, l', w') \<Longrightarrow> \<not> shouldRetry cfg e \<Longrightarrow>
           P k err s (Some e, l', w')"
    and stopped: "\<And>k err s e l' w'. \<not> (Tries cfg \<noteq> 0 \<and> k = Tries cfg) \<Longrightarrow>
           fn s = (Some e, l', w') \<Longrightarrow> shouldRetry cfg e \<Longrightarrow> selectDone E timer cfg w' \<Longrightarrow>
           P k err s (Some e, l', polled w')"
    and again: "\<And>k err s e l' w' y. \<not> (Tries cfg \<noteq> 0 \<and> k = Tries cfg) \<Longrightarrow>
           fn s = (Some e, l', w') \<Longrightarrow> shouldRetry cfg e \<Longrightarrow> \<not> selectDone E timer cfg w' \<Longrightarrow>
           Run_from E timer cfg fn (k + 1) (Some e) (l', polled w') = Some y \<Longrightarrow>
           P (k + 1) (Some e) (l', polled w') y \<Longrightarrow> P k err s y"
  shows "P k err s y"
proof -
  define Q where "Q = (\<lambda>E' t' c' f' k err s y. Run_from E' t' c' f' k err s = Some y \<and>
                 (E' = E \<longrightarrow> t' = timer \<longrightarrow> c' = cfg \<longrightarrow> f' = fn \<longrightarrow> P k err s y))"
  have "Q E timer cfg fn k err s y"
  proof (rule Run_from.raw_induct [where P = Q, OF _ run])
    fix R :: "env \<Rightarrow> (nat \<Rightarrow> bool) \<Rightarrow> RetryConfig \<Rightarrow> ('a \<times> world \<Rightarrow> error option \<times> 'a \<times> world) \<Rightarrow>
       64 word \<Rightarrow> error option \<Rightarrow> 'a \<times> world \<Rightarrow> (error option \<times> 'a \<times> world) option"
    fix E' t' c' f' k err s y
    assume IH: "\<And>E t c f k err s y. R E t c f k err s = Some y \<Longrightarrow> Q E t c f k err s y"
    assume eq: "(if Tries c' \<noteq> 0 \<and> k = Tries c' then Some (Some (RetryExhaustedError err), s)
      else case f' s of (None, s') \<Rightarrow> Some (None, s')
           | (Some e, l', w') \<Rightarrow>
               if \<not> shouldRetry c' e then Some (Some e, l', w')
               else if selectDone E' t' c' w' then Some (Some e, l', polled w')
               else R E' t' c' f' (k + 1) (Some e) (l', polled w')) = Some y"
    show "Q E' t' c' f' k err s y"
    proof (cases "Tries c' \<noteq> 0 \<and> k = Tries c'")
      case True
      then have y: "y = (Some (RetryExhaustedError err), s)" using eq by simp
      have "Run_from E' t' c' f' k err s = Some y"
        using True y by (subst Run_from.simps) simp
      moreover have "P k err s y" if "c' = cfg"
        using that True y exhausted [of k err s] by simp
      ultimately show ?thesis by (simp add: Q_def)
    next
      case ne: False
      show ?thesis
      proof (cases "f' s")
        case (fields r l' w')
        show ?thesis
        proof (cases r)
          case None
          then have y: "y = (None, l', w')" using eq fields by (simp add: ne)
          have "Run_from E' t' c' f' k err s = Some y"
            using y fields None by (subst Run_from.simps) (simp add: ne)
          moreover have "P k err s y" if "c' = cfg" "f' = fn"
            using that y fields None success [of k s "(l', w')" err] ne by auto
          ultimately show ?thesis by (simp add: Q_def)
        next
          case (Some e)
          show ?thesis
          proof (cases "\<not> shouldRetry c' e")
            case True
            then have y: "y = (Some e, l', w')" using eq fields Some by (simp add: ne)
            have "Run_from E' t' c' f' k err s = Some y"
              using y fields Some True by (subst Run_from.simps) (simp add: ne)
            moreover have "P k err s y" if "c' = cfg" "f' = fn"
              using that y fields Some True noRetry [of k s e l' w' err] ne by auto
            ultimately show ?thesis by (simp add: Q_def)
          next
            case sr: False
            show ?thesis
            proof (cases "selectDone E' t' c' w'")
              case True
              then have y: "y = (Some e, l', polled w')" using eq fields Some sr by (simp add: ne)
              have "Run_from E' t' c' f' k err s = Some y"
                using y fields Some True sr by (subst Run_from.simps) (simp add: ne)
              moreover have "P k err s y" if "E' = E" "t' = timer" "c' = cfg" "f' = fn"
                using that y fields Some True sr stopped [of k s e l' w' err] ne by auto
              ultimately show ?thesis by (simp add: Q_def)
            next
              case False
              then have "R E' t' c' f' (k + 1) (Some e) (l', polled w') = Some y"
                using eq fields Some sr by (simp add: ne)
              then have q: "Q E' t' c' f' (k + 1) (Some e) (l', polled w') y"
                by (rule IH)
              then have r: "Run_from E' t' c' f' (k + 1) (Some e) (l', polled w') = Some y"
                by (simp add: Q_def)
              have "Run_from E' t' c' f' k err s = Some y"
                using r fields Some sr False by (subst Run_from.simps) (simp add: ne)
              moreover have "P k err s y"
                if "E' = E" "t' = timer" "c' = cfg" "f' = fn"
                using that q r fields Some sr False again [of k s e l' w' y err] ne
                by (auto simp: Q_def)
              ultimately show ?thesis by (simp add: Q_def)
            qed
          qed
        qed
      qed
    qed
  qed
  then show ?thesis by (simp add: Q_def)
qed

subsection \<open>The loop of runWindowsUpdate\<close>

lemma updateAttempt_eq:
  "updateAttempt E cmd (v, w) =
     (if succeeded (runWithUi E (length (started w))) then None
      else Some (attemptError (runWithUi E (length (started w)))),
      v\<lparr>scriptOutput := scriptOutput v @ run_stdout (runWithUi E (length (started w))),
        scriptErrors := scriptErrors v @ run_stderr (runWithUi E (length (started w))),
        exitStatus := (case run_finish (runWithUi E (length (started w))) of
                         RunExited status \<Rightarrow> status | RunFailed _ \<Rightarrow> exitStatus v)\<rparr>,
      w\<lparr>started := started w @ [cmd]\<rparr>)"
  by (simp add: updateAttempt_def Let_def succeeded_def attemptError_def successCode_def
      split: finish.splits)

lemma started_polled [simp]: "started (polled w) = started w"
  and said_polled [simp]: "said (polled w) = said w"
  and files_polled [simp]: "files (polled w) = files w"
  and tempCalls_polled [simp]: "tempCalls (polled w) = tempCalls w"
  and polls_polled [simp]: "polls (polled w) = polls w + 1"
  by (simp_all add: polled_def)

lemma update_loop_started:
  assumes "Run_from E timer cfg (updateAttempt E cmd) k err (v, w) = Some (r, v', w')"
  shows "\<exists>n. started w' = started w @ replicate n cmd"
  using assms
proof (induction k err "(v, w)" "(r, v', w')" arbitrary: v w rule: Run_from_induct)
  case (exhausted k err)
  then show ?case by simp
next
  case (success k err)
  then show ?case
    by (auto simp: updateAttempt_eq intro: exI [of _ 1])
next
  case (noRetry k err e)
  then show ?case by (auto simp: updateAttempt_eq intro: exI [of _ 1])
next
  case (stopped k err e w1)
  then show ?case by (auto simp: updateAttempt_eq intro: exI [of _ 1])
next
  case (again k err e l1 w1)
  from again.hyps(6) obtain n where "started w' = started (polled w1) @ replicate n cmd"
    by blast
  moreover have "started w1 = started w @ [cmd]"
    using again.hyps(2) by (auto simp: updateAttempt_eq)
  ultimately have "started w' = started w @ replicate (Suc n) cmd"
    by (simp add: replicate_app_Cons_same)
  then show ?case by blast
qed


lemma runs_same [simp]: "runs E w w = []"
  by (simp add: runs_def)

lemma runs_polled [simp]: "runs E (polled w) w' = runs E w w'" "runs E w (polled w') = runs E w w'"
  by (simp_all add: runs_def)

lemma runs_one [simp]:
  "runs E w (w\<lparr>started := started w @ [cmd]\<rparr>) = [runWithUi E (length (started w))]"
  by (simp add: runs_def)

lemma runs_step:
  assumes "started w1 = started w @ [cmd]" and "started w' = started w1 @ xs"
  shows "runs E w w' = runWithUi E (length (started w)) # runs E w1 w'"
proof -
  have "[length (started w)..<length (started w')] =
        length (started w) # [Suc (length (started w))..<length (started w')]"
    by (rule upt_conv_Cons) (simp add: assms)
  moreover have "length (started w1) = Suc (length (started w))"
    by (simp add: assms)
  ultimately show ?thesis
    by (simp only: runs_def list.map)
qed

lemma observed_Nil [simp]: "observed [] = []"
  and observed_Cons: "observed (r # rs) =
     (case run_finish r of RunExited status \<Rightarrow> [status] | RunFailed _ \<Rightarrow> []) @ observed rs"
  by (simp_all add: observed_def)

lemma update_loop_vars:
  assumes "Run_from E timer cfg (updateAttempt E cmd) k err (v, w) = Some (r, v', w')"
  shows "scriptOutput v' = scriptOutput v @ concat (map run_stdout (runs E w w'))
       \<and> scriptErrors v' = scriptErrors v @ concat (map run_stderr (runs E w w'))
       \<and> exitStatus v' = (if observed (runs E w w') = [] then exitStatus v
                           else last (observed (runs E w w')))"
  using assms
proof (induction k err "(v, w)" "(r, v', w')" arbitrary: v w rule: Run_from_induct)
  case (exhausted k err)
  then show ?case by simp
next
  case (success k err)
  then show ?case
    by (auto simp: updateAttempt_eq observed_Cons split: finish.splits)
next
  case (noRetry k err e)
  then show ?case by (auto simp: updateAttempt_eq observed_Cons split: finish.splits)
next
  case (stopped k err e w1)
  then show ?case by (auto simp: updateAttempt_eq observed_Cons split: finish.splits)
next
  case (again k err e v1 w1)
  obtain n where n: "started w' = started (polled w1) @ replicate n cmd"
    using update_loop_started [OF again.hyps(5)] by blast
  have w1: "started w1 = started w @ [cmd]"
    using again.hyps(2) by (auto simp: updateAttempt_eq)
  have rs: "runs E w w' = runWithUi E (length (started w)) # runs E w1 w'"
    using runs_step [OF w1, of w' "replicate n cmd" E] n by simp
  have v1: "v1 = v\<lparr>scriptOutput := scriptOutput v @ run_stdout (runWithUi E (length (started w))),
        scriptErrors := scriptErrors v @ run_stderr (runWithUi E (length (started w))),
        exitStatus := (case run_finish (runWithUi E (length (started w))) of
                         RunExited status \<Rightarrow> status | RunFailed _ \<Rightarrow> exitStatus v)\<rparr>"
    using again.hyps(2) by (auto simp: updateAttempt_eq)
  show ?case
    using again.hyps(6) by (simp add: rs v1 observed_Cons split: finish.splits)
qed

lemma update_loop_frame:
  assumes "Run_from E timer cfg (updateAttempt E cmd) k err (v, w) = Some (r, v', w')"
  shows "said w' = said w \<and> files w' = files w \<and> tempCalls w' = tempCalls w"
  using assms
  by (induction k err "(v, w)" "(r, v', w')" arbitrary: v w rule: Run_from_induct)
     (auto simp: updateAttempt_eq)

lemma update_loop_result:
  assumes "Run_from E timer cfg (updateAttempt E cmd) k err (v, w) = Some (r, v', w')"
  shows "(if runs E w w' = [] then r = Some (RetryExhaustedError err) \<and> Tries cfg \<noteq> 0 \<and> k = Tries cfg
          else list_all (\<lambda>x. \<not> succeeded x) (butlast (runs E w w')) \<and>
            (if succeeded (last (runs E w w')) then r = None
             else r = Some (attemptError (last (runs E w w'))) \<or>
                  r = Some (RetryExhaustedError (Some (attemptError (last (runs E w w')))))))"
  using assms
proof (induction k err "(v, w)" "(r, v', w')" arbitrary: v w rule: Run_from_induct)
  case (exhausted k err)
  then show ?case by simp
next
  case (success k err)
  then show ?case
    by (auto simp: updateAttempt_eq split: if_splits)
next
  case (noRetry k err e)
  then show ?case by (auto simp: updateAttempt_eq split: if_splits)
next
  case (stopped k err e w1)
  then show ?case by (auto simp: updateAttempt_eq split: if_splits)
next
  case (again k err e v1 w1)
  obtain n where n: "started w' = started (polled w1) @ replicate n cmd"
    using update_loop_started [OF again.hyps(5)] by blast
  have w1: "started w1 = started w @ [cmd]"
    using again.hyps(2) by (auto simp: updateAttempt_eq)
  have rs: "runs E w w' = runWithUi E (length (started w)) # runs E w1 w'"
    using runs_step [OF w1, of w' "replicate n cmd" E] n by simp
  have e: "\<not> succeeded (runWithUi E (length (started w)))"
     "e = attemptError (runWithUi E (length (started w)))"
    using again.hyps(2) by (auto simp: updateAttempt_eq split: if_splits)
  show ?case
    using again.hyps(6) by (simp add: rs e split: if_splits)
qed


lemma unat_diff_step:
  fixes k t :: "64 word"
  assumes "k \<noteq> t"
  shows "Suc (unat (t - (k + 1))) = unat (t - k)"
proof -
  have ne: "t - k \<noteq> 0" using assms by simp
  have eq: "t - (k + 1) = (t - k) - 1" by simp
  have "unat (t - (k + 1)) = unat (t - k) - 1"
    unfolding eq by (rule unat_minus_one [OF ne])
  moreover have "unat (t - k) \<noteq> 0" using ne by (simp add: unat_eq_zero)
  ultimately show ?thesis by simp
qed

lemma Run_from_returns:
  assumes "Tries cfg \<noteq> 0"
  shows "\<exists>y. Run_from E timer cfg fn k err s = Some y"
proof (induction n \<equiv> "unat (Tries cfg - k)" arbitrary: k err s)
  case 0
  then have "k = Tries cfg" by (simp add: unat_eq_zero)
  then show ?case using assms by (subst Run_from.simps) simp
next
  case (Suc n)
  then have ne: "k \<noteq> Tries cfg" by auto
  then have n: "n = unat (Tries cfg - (k + 1))"
    using unat_diff_step [of k "Tries cfg"] Suc.hyps(2) by simp
  obtain r l' w' where f: "fn s = (r, l', w')" by (cases "fn s")
  show ?case
  proof (cases r)
    case None
    then show ?thesis using f ne by (subst Run_from.simps) simp
  next
    case (Some e)
    obtain y where "Run_from E timer cfg fn (k + 1) (Some e) (l', polled w') = Some y"
      using Suc.hyps(1) [OF n] by blast
    then show ?thesis using f ne Some by (subst Run_from.simps) (cases y, simp)
  qed
qed

lemma update_loop_count:
  assumes "Run_from E timer cfg (updateAttempt E cmd) k err (v, w) = Some (r, v', w')"
    and "Tries cfg \<noteq> 0"
  shows "length (runs E w w') \<le> unat (Tries cfg - k)"
  using assms
proof (induction k err "(v, w)" "(r, v', w')" arbitrary: v w rule: Run_from_induct)
  case (exhausted k err)
  then show ?case by simp
next
  case (success k err)
  then show ?case
    using unat_diff_step [of k "Tries cfg"] by (auto simp: updateAttempt_eq)
next
  case (noRetry k err e)
  then show ?case using unat_diff_step [of k "Tries cfg"] by (auto simp: updateAttempt_eq)
next
  case (stopped k err e w1)
  then show ?case using unat_diff_step [of k "Tries cfg"] by (auto simp: updateAttempt_eq)
next
  case (again k err e v1 w1)
  obtain n where n: "started w' = started (polled w1) @ replicate n cmd"
    using update_loop_started [OF again.hyps(5)] by blast
  have w1: "started w1 = started w @ [cmd]"
    using again.hyps(2) by (auto simp: updateAttempt_eq)
  have rs: "runs E w w' = runWithUi E (length (started w)) # runs E w1 w'"
    using runs_step [OF w1, of w' "replicate n cmd" E] n by simp
  show ?case
    using again.hyps(6) again.prems again.hyps(1) unat_diff_step [of k "Tries cfg"]
    by (simp add: rs)
qed

lemma selectDone_neverDone: "neverDone E timer \<Longrightarrow> \<not> selectDone E timer cfg w"
  by (simp add: neverDone_def selectDone_def)

text \<open>
  Without a bound on the tries the loop does not return when every attempt fails and
  nothing cancels it or times it out.
\<close>

lemma Run_from_unbounded:
  assumes "Tries cfg = 0" and "ShouldRetry cfg = None" and "neverDone E timer"
    and "\<And>s. fst (fn s) \<noteq> None"
  shows "Run_from E timer cfg fn k err s = None"
proof (rule ccontr)
  assume "Run_from E timer cfg fn k err s \<noteq> None"
  then obtain y where "Run_from E timer cfg fn k err s = Some y" by blast
  then show False
  proof (induction rule: Run_from_induct)
    case (exhausted k err s)
    then show ?case using assms(1) by simp
  next
    case (success k err s s')
    then show ?case using assms(4) [of s] by simp
  next
    case (noRetry k err s e l' w')
    then show ?case using assms(2) by (simp add: shouldRetry_def)
  next
    case (stopped k err s e l' w')
    then show ?case using assms(3) by (simp add: selectDone_neverDone)
  next
    case (again k err s e l' w' y)
    then show ?case by simp
  qed
qed

lemma update_loop_exhausts:
  assumes "Run_from E timer cfg (updateAttempt E cmd) k err (v, w) = Some (r, v', w')"
    and "Tries cfg \<noteq> 0" and "ShouldRetry cfg = None" and "neverDone E timer" and "r \<noteq> None"
  shows "length (runs E w w') = unat (Tries cfg - k)"
  using assms
proof (induction k err "(v, w)" "(r, v', w')" arbitrary: v w rule: Run_from_induct)
  case (exhausted k err)
  then show ?case by simp
next
  case (success k err)
  then show ?case by simp
next
  case (noRetry k err e)
  then show ?case by (simp add: shouldRetry_def)
next
  case (stopped k err e w1)
  then show ?case by (simp add: selectDone_neverDone)
next
  case (again k err e v1 w1)
  obtain n where n: "started w' = started (polled w1) @ replicate n cmd"
    using update_loop_started [OF again.hyps(5)] by blast
  have w1: "started w1 = started w @ [cmd]"
    using again.hyps(2) by (auto simp: updateAttempt_eq)
  have rs: "runs E w w' = runWithUi E (length (started w)) # runs E w1 w'"
    using runs_step [OF w1, of w' "replicate n cmd" E] n by simp
  show ?case
    using again.hyps(6) again.prems again.hyps(1) unat_diff_step [of k "Tries cfg"]
    by (simp add: rs)
qed

subsection \<open>runWindowsUpdate\<close>

lemma update_loop_exhausted_error:
  assumes "Run_from E timer cfg (updateAttempt E cmd) k err (v, w) = Some (r, v', w')"
    and "ShouldRetry cfg = None" and "neverDone E timer" and "r \<noteq> None"
  shows "\<exists>x. r = Some (RetryExhaustedError x)"
  using assms
  by (induction k err "(v, w)" "(r, v', w')" arbitrary: v w rule: Run_from_induct)
     (auto simp: shouldRetry_def selectDone_neverDone)

lemma attemptError_not_exhausted [simp]:
  "attemptError r \<noteq> RetryExhaustedError x" "RetryExhaustedError x \<noteq> attemptError r"
  by (simp_all add: attemptError_def split: finish.splits)

lemma started_Say [simp]: "started (Say m w) = started w"
  and tempCalls_Say [simp]: "tempCalls (Say m w) = tempCalls w"
  and files_Say [simp]: "files (Say m w) = files w"
  and polls_Say [simp]: "polls (Say m w) = polls w"
  and said_Say [simp]: "said (Say m w) = said w @ [m]"
  by (simp_all add: Say_def)

lemma runs_Say [simp]: "runs E (Say m w) w' = runs E w w'" "runs E w (Say m w') = runs E w w'"
  by (simp_all add: runs_def)

lemma updateRetry_simps [simp]:
  "Tries (updateRetry c) = UpdateRetryAttempts c" "ShouldRetry (updateRetry c) = None"
  "StartTimeout (updateRetry c) = UpdateTimeout c"
  by (simp_all add: updateRetry_def)

lemma runWindowsUpdate_vars_loop:
  assumes "runWindowsUpdate_vars E c script w = Some ((code, err), v, w')" and "script \<noteq> []"
  shows "Run_from E (updateTimer E) (updateRetry c) (updateAttempt E (getWindowsUpdateCommand script))
           0 None (\<lparr>scriptOutput = [], scriptErrors = [], exitStatus = 0\<rparr>,
                   Say ''Running Windows update...'' w) = Some (err, v, w')"
    and "code = exitStatus v"
  using assms
  by (auto simp: runWindowsUpdate_vars_def Run_def Let_def split: option.splits)

lemma runWindowsUpdate_vars_empty:
  "runWindowsUpdate_vars E c [] w =
     Some ((1, Some FilePathEmpty), \<lparr>scriptOutput = [], scriptErrors = [], exitStatus = 0\<rparr>,
           Say ''Running Windows update...'' w)"
  by (simp add: runWindowsUpdate_vars_def Let_def)

lemma runWindowsUpdate_vars_returns:
  assumes "script \<noteq> []" and "UpdateRetryAttempts c \<noteq> 0"
  shows "\<exists>code err v w'. runWindowsUpdate_vars E c script w = Some ((code, err), v, w')"
proof -
  have "\<exists>y. Run_from E (updateTimer E) (updateRetry c)
      (updateAttempt E (getWindowsUpdateCommand script)) 0 None
      (\<lparr>scriptOutput = [], scriptErrors = [], exitStatus = 0\<rparr>, Say ''Running Windows update...'' w) = Some y"
    by (rule Run_from_returns) (simp add: assms(2))
  then obtain y where "Run_from E (updateTimer E) (updateRetry c)
      (updateAttempt E (getWindowsUpdateCommand script)) 0 None
      (\<lparr>scriptOutput = [], scriptErrors = [], exitStatus = 0\<rparr>, Say ''Running Windows update...'' w) = Some y"
    by blast
  then show ?thesis
    using assms(1) by (cases y) (simp add: runWindowsUpdate_vars_def Run_def Let_def)
qed

lemma runWindowsUpdate_eq:
  "runWindowsUpdate E c script w = Some (res, w') \<longleftrightarrow>
     (\<exists>v. runWindowsUpdate_vars E c script w = Some (res, v, w'))"
  by (cases "runWindowsUpdate_vars E c script w")
     (auto simp: runWindowsUpdate_def split: prod.splits)

text \<open>The equations that evaluate a run in one of the example environments.\<close>

lemmas run_eval =
  runWindowsUpdate_def runWindowsUpdate_vars_def Run_def Say_def newWorld_def
  preparedConfig_def emptyConfig_def applyDefaults_def updateRetry_def uploadRetry_def calmEnv_def
  updateAttempt_eq succeeded_def successCode_def
  DefaultUpdateRetryAttempts_def DefaultUploadRetryAttempts_def DefaultUploadTimeout_def
  DefaultUploadRetryDelay_def DefaultRestartTimeout_def DefaultUpdateTimeout_def
  Hour_def Minute_def Second_def Let_def Run_from.simps exits_def
  attemptError_def shouldRetry_def selectDone_def polled_def exitEnv_def lostEnv_def noisyEnv_def
  fullDiskEnv_def namelessEnv_def tempPath_def runs_def observed_def

text \<open>
  C10. The two buffers are made once, before the loop, and every attempt appends to
  them: when \<open>runWindowsUpdate\<close> returns, \<open>scriptOutput\<close> is what the remote runs of
  the call wrote to their standard output, in the order of the runs, the failed ones
  first and the last run at the end, and \<open>scriptErrors\<close> is the same for their standard
  error; neither holds a byte of the other stream.
\<close>

theorem runWindowsUpdate_buffers:
  assumes "runWindowsUpdate_vars E c script w = Some (res, v, w')"
  shows "scriptOutput v = concat (map run_stdout (runs E w w'))
       \<and> scriptErrors v = concat (map run_stderr (runs E w w'))"
proof (cases "script = []")
  case True
  then show ?thesis using assms by (auto simp: runWindowsUpdate_vars_empty)
next
  case False
  obtain code err where res: "res = (code, err)" by (cases res)
  show ?thesis
    using update_loop_vars [OF runWindowsUpdate_vars_loop(1) [OF assms [unfolded res] False]]
    by simp
qed

theorem runWindowsUpdate_buffers_witness:
  "runWindowsUpdate_vars noisyEnv preparedConfig tempPath newWorld =
     Some ((0, None), \<lparr>scriptOutput = [1, 2, 3], scriptErrors = [9, 8, 7], exitStatus = 0\<rparr>,
       newWorld\<lparr>said := [''Running Windows update...''],
         started := [getWindowsUpdateCommand tempPath, getWindowsUpdateCommand tempPath],
         polls := 1\<rparr>)
   \<and> scriptOutput \<lparr>scriptOutput = [1, 2, 3], scriptErrors = [9, 8, 7], exitStatus = 0\<rparr> =
       concat (map run_stdout (runs noisyEnv newWorld
         (newWorld\<lparr>said := [''Running Windows update...''],
         started := [getWindowsUpdateCommand tempPath, getWindowsUpdateCommand tempPath],
         polls := 1\<rparr>)))
   \<and> scriptErrors \<lparr>scriptOutput = [1, 2, 3], scriptErrors = [9, 8, 7], exitStatus = 0\<rparr> =
       concat (map run_stderr (runs noisyEnv newWorld
         (newWorld\<lparr>said := [''Running Windows update...''],
         started := [getWindowsUpdateCommand tempPath, getWindowsUpdateCommand tempPath],
         polls := 1\<rparr>)))"
proof -
  have run: "runWindowsUpdate_vars noisyEnv preparedConfig tempPath newWorld =
     Some ((0, None), \<lparr>scriptOutput = [1, 2, 3], scriptErrors = [9, 8, 7], exitStatus = 0\<rparr>,
       newWorld\<lparr>said := [''Running Windows update...''],
         started := [getWindowsUpdateCommand tempPath, getWindowsUpdateCommand tempPath],
         polls := 1\<rparr>)"
    by (simp add: run_eval)
  show ?thesis
    by (rule conjI [OF run runWindowsUpdate_buffers [OF run]])
qed

text \<open>
  C4, as amended. When \<open>runWindowsUpdate\<close> returns: for an empty path the result is 1
  and an error, with no remote run; otherwise there was a remote run, the error is nil
  exactly when the last run ended with one of the three statuses of success, and the
  integer is the last exit status observed in the call, or 0 when no run of the call
  ended with a status.
\<close>

theorem runWindowsUpdate_result:
  assumes "runWindowsUpdate E c script w = Some ((code, err), w')"
  shows "(if script = [] then code = 1 \<and> err = Some FilePathEmpty \<and> runs E w w' = []
          else runs E w w' \<noteq> [] \<and> (err = None \<longleftrightarrow> succeeded (last (runs E w w'))) \<and>
               code = (if observed (runs E w w') = [] then 0 else last (observed (runs E w w'))))"
proof (cases "script = []")
  case True
  then show ?thesis using assms by (auto simp: runWindowsUpdate_eq runWindowsUpdate_vars_empty)
next
  case False
  obtain v where v: "runWindowsUpdate_vars E c script w = Some ((code, err), v, w')"
    using assms by (auto simp: runWindowsUpdate_eq)
  note loop = runWindowsUpdate_vars_loop [OF v False]
  have ne: "runs E w w' \<noteq> []"
    using update_loop_result [OF loop(1)] by (auto split: if_splits)
  have "err = None \<longleftrightarrow> succeeded (last (runs E w w'))"
    using update_loop_result [OF loop(1)] ne by (auto split: if_splits)
  moreover have "code = (if observed (runs E w w') = [] then 0 else last (observed (runs E w w')))"
    using update_loop_vars [OF loop(1)] loop(2) by simp
  ultimately show ?thesis using ne False by simp
qed


theorem runWindowsUpdate_result_witness:
  "runWindowsUpdate (exitEnv 5) (preparedConfig\<lparr>UpdateRetryAttempts := 2\<rparr>) tempPath newWorld =
     Some ((5, Some (RetryExhaustedError (Some (UpdateExitStatus 5)))),
       newWorld\<lparr>said := [''Running Windows update...''],
         started := [getWindowsUpdateCommand tempPath, getWindowsUpdateCommand tempPath],
         polls := 2\<rparr>)
   \<and> (if tempPath = []
       then (5::int) = 1 \<and> Some (RetryExhaustedError (Some (UpdateExitStatus 5))) = Some FilePathEmpty \<and>
         runs (exitEnv 5) newWorld (newWorld\<lparr>said := [''Running Windows update...''],
           started := [getWindowsUpdateCommand tempPath, getWindowsUpdateCommand tempPath],
           polls := 2\<rparr>) = []
       else runs (exitEnv 5) newWorld (newWorld\<lparr>said := [''Running Windows update...''],
           started := [getWindowsUpdateCommand tempPath, getWindowsUpdateCommand tempPath],
           polls := 2\<rparr>) \<noteq> [] \<and>
         (Some (RetryExhaustedError (Some (UpdateExitStatus 5))) = None \<longleftrightarrow>
            succeeded (last (runs (exitEnv 5) newWorld (newWorld\<lparr>said := [''Running Windows update...''],
           started := [getWindowsUpdateCommand tempPath, getWindowsUpdateCommand tempPath],
           polls := 2\<rparr>)))) \<and>
         5 = (if observed (runs (exitEnv 5) newWorld (newWorld\<lparr>said := [''Running Windows update...''],
           started := [getWindowsUpdateCommand tempPath, getWindowsUpdateCommand tempPath],
           polls := 2\<rparr>)) = [] then 0
              else last (observed (runs (exitEnv 5) newWorld (newWorld\<lparr>said := [''Running Windows update...''],
           started := [getWindowsUpdateCommand tempPath, getWindowsUpdateCommand tempPath],
           polls := 2\<rparr>)))))"
proof -
  have run: "runWindowsUpdate (exitEnv 5) (preparedConfig\<lparr>UpdateRetryAttempts := 2\<rparr>) tempPath newWorld =
     Some ((5, Some (RetryExhaustedError (Some (UpdateExitStatus 5)))),
       newWorld\<lparr>said := [''Running Windows update...''],
         started := [getWindowsUpdateCommand tempPath, getWindowsUpdateCommand tempPath],
         polls := 2\<rparr>)"
    by (simp add: run_eval)
  show ?thesis
    by (rule conjI [OF run runWindowsUpdate_result [OF run]])
qed

text \<open>
  The claim C4 as it was stated fails where no run ends with a status: every run is
  lost in the communicator, the one try is used up, and \<open>runWindowsUpdate\<close> returns an
  error with the integer 0, which no run reported and which is a status of success.
\<close>

theorem runWindowsUpdate_result_counterexample:
  "map_option fst (runWindowsUpdate lostEnv (preparedConfig\<lparr>UpdateRetryAttempts := 1\<rparr>) tempPath newWorld)
     = Some (0, Some (RetryExhaustedError (Some (Foreign ''connection lost''))))
   \<and> map_option (observed \<circ> runs lostEnv newWorld \<circ> snd)
       (runWindowsUpdate lostEnv (preparedConfig\<lparr>UpdateRetryAttempts := 1\<rparr>) tempPath newWorld)
     = Some []
   \<and> successCode 0"
  by (simp add: run_eval)

lemma observed_snoc:
  "run_finish r = RunExited st \<Longrightarrow> observed (xs @ [r]) = observed xs @ [st]"
  by (simp add: observed_def)

lemma update_loop_stops:
  assumes "\<not> (Tries cfg \<noteq> 0 \<and> k = Tries cfg)"
    and "run_finish (runWithUi E (length (started w))) = RunExited status"
    and "successCode status"
  shows "\<exists>v'. Run_from E timer cfg (updateAttempt E cmd) k err (v, w) =
            Some (None, v', w\<lparr>started := started w @ [cmd]\<rparr>) \<and> exitStatus v' = status"
  using assms by (subst Run_from.simps) (simp add: updateAttempt_eq succeeded_def)

lemma runWindowsUpdate_attempts:
  assumes a: "script \<noteq> []" "UpdateRetryAttempts c \<noteq> 0"
  shows "\<exists>code e w'. runWindowsUpdate E c script w = Some ((code, e), w') \<and>
         1 \<le> length (runs E w w') \<and> length (runs E w w') \<le> unat (UpdateRetryAttempts c) \<and>
         list_all (\<lambda>r. \<not> succeeded r) (butlast (runs E w w')) \<and>
         (if succeeded (last (runs E w w'))
          then e = None \<and> run_finish (last (runs E w w')) = RunExited code
          else (e = Some (attemptError (last (runs E w w'))) \<or>
                e = Some (RetryExhaustedError (Some (attemptError (last (runs E w w')))))) \<and>
               (\<forall>st. run_finish (last (runs E w w')) = RunExited st \<longrightarrow> code = st) \<and>
               (neverDone E (updateTimer E) \<longrightarrow>
                  length (runs E w w') = unat (UpdateRetryAttempts c) \<and>
                  e = Some (RetryExhaustedError (Some (attemptError (last (runs E w w')))))))"
proof -
  obtain code e v w' where v: "runWindowsUpdate_vars E c script w = Some ((code, e), v, w')"
    using runWindowsUpdate_vars_returns [OF a, of E w] by blast
  let ?rs = "runs E w w'"
  note l1 = runWindowsUpdate_vars_loop(1) [OF v a(1)]
  note res = update_loop_result [OF l1]
  have ne: "?rs \<noteq> []" using res by (auto split: if_splits)
  have cnt: "length ?rs \<le> unat (UpdateRetryAttempts c)"
    using update_loop_count [OF l1] a by simp
  have bl: "list_all (\<lambda>r. \<not> succeeded r) (butlast ?rs)"
    using res ne by (simp split: if_splits)
  have code: "code = (if observed ?rs = [] then 0 else last (observed ?rs))"
    using update_loop_vars [OF l1] runWindowsUpdate_vars_loop(2) [OF v a(1)] by simp
  have obs: "run_finish (last ?rs) = RunExited st \<Longrightarrow> code = st" for st
  proof -
    assume st: "run_finish (last ?rs) = RunExited st"
    have "observed (butlast ?rs @ [last ?rs]) = observed (butlast ?rs) @ [st]"
      by (rule observed_snoc [OF st])
    then have "observed ?rs = observed (butlast ?rs) @ [st]"
      by (simp only: append_butlast_last_id [OF ne])
    then show ?thesis using code by simp
  qed
  have tail: "(if succeeded (last ?rs)
          then e = None \<and> run_finish (last ?rs) = RunExited code
          else (e = Some (attemptError (last ?rs)) \<or>
                e = Some (RetryExhaustedError (Some (attemptError (last ?rs))))) \<and>
               (\<forall>st. run_finish (last ?rs) = RunExited st \<longrightarrow> code = st) \<and>
               (neverDone E (updateTimer E) \<longrightarrow>
                  length ?rs = unat (UpdateRetryAttempts c) \<and>
                  e = Some (RetryExhaustedError (Some (attemptError (last ?rs))))))"
  proof (cases "succeeded (last ?rs)")
    case True
    then obtain st where st: "run_finish (last ?rs) = RunExited st"
      by (auto simp: succeeded_def split: finish.splits)
    show ?thesis using True res ne obs [OF st] st by simp
  next
    case False
    have e: "e = Some (attemptError (last ?rs)) \<or>
                e = Some (RetryExhaustedError (Some (attemptError (last ?rs))))"
      using False res ne by simp
    have "length ?rs = unat (UpdateRetryAttempts c) \<and>
                  e = Some (RetryExhaustedError (Some (attemptError (last ?rs))))"
      if nd: "neverDone E (updateTimer E)"
    proof -
      have en: "e \<noteq> None" using e by auto
      have "length ?rs = unat (UpdateRetryAttempts c)"
        using update_loop_exhausts [OF l1 _ _ nd en] a by simp
      moreover obtain x where "e = Some (RetryExhaustedError x)"
        using update_loop_exhausted_error [OF l1 _ nd en] by auto
      ultimately show ?thesis using e by auto
    qed
    then show ?thesis using False e obs by simp
  qed
  have "runWindowsUpdate E c script w = Some ((code, e), w')"
    using v by (auto simp: runWindowsUpdate_eq)
  moreover have "1 \<le> length ?rs" using ne by (cases ?rs) simp_all
  ultimately show ?thesis
    using cnt bl tail by blast
qed

text \<open>
  C2. First: when the loop stands before an attempt (the bound on the tries is not
  reached) and the remote run ends with status 0, 101 or 2147942501, the loop returns
  nil there, with this one run added and \<open>exitStatus\<close> the status. Second: with a
  path that is not empty and \<open>UpdateRetryAttempts\<close> not 0, \<open>runWindowsUpdate\<close> returns
  after at least one and at most \<open>UpdateRetryAttempts\<close> remote runs; every run but the
  last failed; if the last run succeeded the error is nil and the integer its status;
  if it failed, the error is the error of that run, alone or inside a
  \<open>RetryExhaustedError\<close>, the integer is its status when it ended with one, and, when
  no cancellation or timeout ends the loop, the runs are exactly \<open>UpdateRetryAttempts\<close>
  many and the error is the \<open>RetryExhaustedError\<close>.
\<close>

theorem runWindowsUpdate_retry:
  "(\<not> (Tries cfg \<noteq> 0 \<and> k = Tries cfg) \<and>
    run_finish (runWithUi E (length (started w))) = RunExited status \<and> successCode status \<longrightarrow>
      (\<exists>v'. Run_from E timer cfg (updateAttempt E cmd) k err (v, w) =
            Some (None, v', w\<lparr>started := started w @ [cmd]\<rparr>) \<and> exitStatus v' = status))
   \<and> (script \<noteq> [] \<and> UpdateRetryAttempts c \<noteq> 0 \<longrightarrow>
      (\<exists>code e w'. runWindowsUpdate E c script w = Some ((code, e), w') \<and>
         1 \<le> length (runs E w w') \<and> length (runs E w w') \<le> unat (UpdateRetryAttempts c) \<and>
         list_all (\<lambda>r. \<not> succeeded r) (butlast (runs E w w')) \<and>
         (if succeeded (last (runs E w w'))
          then e = None \<and> run_finish (last (runs E w w')) = RunExited code
          else (e = Some (attemptError (last (runs E w w'))) \<or>
                e = Some (RetryExhaustedError (Some (attemptError (last (runs E w w')))))) \<and>
               (\<forall>st. run_finish (last (runs E w w')) = RunExited st \<longrightarrow> code = st) \<and>
               (neverDone E (updateTimer E) \<longrightarrow>
                  length (runs E w w') = unat (UpdateRetryAttempts c) \<and>
                  e = Some (RetryExhaustedError (Some (attemptError (last (runs E w w')))))))))"
  using update_loop_stops [of cfg k E w status timer cmd err v]
    runWindowsUpdate_attempts [of script c E w]
  by blast

lemma last_runs_exitEnv:
  assumes "1 \<le> length (runs (exitEnv status) w w')"
  shows "last (runs (exitEnv status) w w') = exits status"
proof -
  have "runs (exitEnv status) w w' \<noteq> []" using assms by auto
  then have "last (runs (exitEnv status) w w') \<in> set (runs (exitEnv status) w w')"
    by (rule last_in_set)
  then show ?thesis by (auto simp: runs_def exitEnv_def calmEnv_def)
qed

theorem runWindowsUpdate_retry_witness:
  "(\<not> (Tries (updateRetry preparedConfig) \<noteq> 0 \<and> 0 = Tries (updateRetry preparedConfig)) \<and>
    run_finish (runWithUi (exitEnv 101) (length (started newWorld))) = RunExited 101 \<and>
    successCode 101)
   \<and> (\<exists>v'. Run_from (exitEnv 101) (updateTimer (exitEnv 101)) (updateRetry preparedConfig)
              (updateAttempt (exitEnv 101) (getWindowsUpdateCommand tempPath)) 0 None
              (\<lparr>scriptOutput = [], scriptErrors = [], exitStatus = 0\<rparr>, newWorld) =
            Some (None, v', newWorld\<lparr>started := started newWorld @ [getWindowsUpdateCommand tempPath]\<rparr>) \<and>
          exitStatus v' = 101)
   \<and> (tempPath \<noteq> [] \<and> UpdateRetryAttempts (preparedConfig\<lparr>UpdateRetryAttempts := 3\<rparr>) \<noteq> 0)
   \<and> (\<exists>w'. runWindowsUpdate (exitEnv 5) (preparedConfig\<lparr>UpdateRetryAttempts := 3\<rparr>) tempPath newWorld =
            Some ((5, Some (RetryExhaustedError (Some (UpdateExitStatus 5)))), w') \<and>
          length (runs (exitEnv 5) newWorld w') = 3)"
proof -
  have h1: "\<not> (Tries (updateRetry preparedConfig) \<noteq> 0 \<and> 0 = Tries (updateRetry preparedConfig)) \<and>
    run_finish (runWithUi (exitEnv 101) (length (started newWorld))) = RunExited 101 \<and>
    successCode 101"
    by (simp add: run_eval)
  have h2: "tempPath \<noteq> [] \<and> UpdateRetryAttempts (preparedConfig\<lparr>UpdateRetryAttempts := 3\<rparr>) \<noteq> 0"
    by (simp add: tempPath_def)
  note a = runWindowsUpdate_retry [THEN conjunct1, rule_format, OF h1]
  note b = runWindowsUpdate_retry [THEN conjunct2, rule_format, OF h2]
  obtain code e w' where r:
    "runWindowsUpdate (exitEnv 5) (preparedConfig\<lparr>UpdateRetryAttempts := 3\<rparr>) tempPath newWorld =
       Some ((code, e), w')"
    "1 \<le> length (runs (exitEnv 5) newWorld w')"
    "(if succeeded (last (runs (exitEnv 5) newWorld w'))
      then e = None \<and> run_finish (last (runs (exitEnv 5) newWorld w')) = RunExited code
      else (e = Some (attemptError (last (runs (exitEnv 5) newWorld w'))) \<or>
            e = Some (RetryExhaustedError (Some (attemptError (last (runs (exitEnv 5) newWorld w')))))) \<and>
           (\<forall>st. run_finish (last (runs (exitEnv 5) newWorld w')) = RunExited st \<longrightarrow> code = st) \<and>
           (neverDone (exitEnv 5) (updateTimer (exitEnv 5)) \<longrightarrow>
              length (runs (exitEnv 5) newWorld w') =
                unat (UpdateRetryAttempts (preparedConfig\<lparr>UpdateRetryAttempts := 3\<rparr>)) \<and>
              e = Some (RetryExhaustedError (Some (attemptError (last (runs (exitEnv 5) newWorld w')))))))"
    using b [of "exitEnv 5" newWorld] by blast
  have l: "last (runs (exitEnv 5) newWorld w') = exits 5"
    by (rule last_runs_exitEnv [OF r(2)])
  have nd: "neverDone (exitEnv 5) (updateTimer (exitEnv 5))"
    by (simp add: neverDone_def exitEnv_def calmEnv_def)
  have "code = 5 \<and> e = Some (RetryExhaustedError (Some (UpdateExitStatus 5))) \<and>
        length (runs (exitEnv 5) newWorld w') = 3"
    using r(3) nd unfolding l
    by (simp add: succeeded_def successCode_def exits_def attemptError_def)
  then show ?thesis using h1 h2 a r(1) by blast
qed

subsection \<open>The loop of uploadScript\<close>

lemma uploadAttempt_frame:
  assumes "uploadAttempt E script (p, w) = (e, p1, w1)"
  shows "started w1 = started w" "said w1 = said w" "polls w1 = polls w"
    "tempCalls w1 = Suc (tempCalls w)"
    "p1 = (case createTemp E (tempCalls w) of Inr name \<Rightarrow> name | Inl _ \<Rightarrow> p)"
    "e = None \<or> (\<exists>x. e = Some x \<and> stagingFailure x \<and> (\<forall>y. x \<noteq> RetryExhaustedError y))"
    "files w1 name = files w name \<or> createTemp E (tempCalls w) = Inr name"
  using assms
  by (auto simp: uploadAttempt_def Let_def split: sum.splits write_result.splits option.splits if_splits)

lemma created_same [simp]: "created E w w = []"
  by (simp add: created_def)

lemma tempCalls_created_polled [simp]:
  "created E (polled w) w' = created E w w'" "created E w (polled w') = created E w w'"
  by (simp_all add: created_def)

lemma created_Say [simp]:
  "created E (Say m w) w' = created E w w'" "created E w (Say m w') = created E w w'"
  by (simp_all add: created_def)

lemma created_Suc:
  assumes "tempCalls w1 = Suc (tempCalls w)"
  shows "created E w w1 = (case createTemp E (tempCalls w) of Inr name \<Rightarrow> [name] | Inl _ \<Rightarrow> [])"
  using assms by (simp add: created_def)

lemma created_step:
  assumes "tempCalls w1 = Suc (tempCalls w)" and "tempCalls w1 \<le> tempCalls w'"
  shows "created E w w' =
     (case createTemp E (tempCalls w) of Inr name \<Rightarrow> [name] | Inl _ \<Rightarrow> []) @ created E w1 w'"
proof -
  have "[tempCalls w..<tempCalls w'] = tempCalls w # [Suc (tempCalls w)..<tempCalls w']"
    by (rule upt_conv_Cons) (use assms in simp)
  then show ?thesis
    by (simp add: created_def assms(1))
qed

lemma upload_loop_frame:
  assumes "Run_from E timer cfg (uploadAttempt E script) k err (p, w) = Some (r, p', w')"
  shows "started w' = started w \<and> said w' = said w \<and> tempCalls w \<le> tempCalls w'"
  using assms
proof (induction k err "(p, w)" "(r, p', w')" arbitrary: p w rule: Run_from_induct)
  case (exhausted k err)
  then show ?case by simp
next
  case (success k err)
  then show ?case using uploadAttempt_frame(1,2,4) [OF success.hyps(2)] by auto
next
  case (noRetry k err e)
  then show ?case using uploadAttempt_frame(1,2,4) [OF noRetry.hyps(2)] by auto
next
  case (stopped k err e w1)
  then show ?case using uploadAttempt_frame(1,2,4) [OF stopped.hyps(2)] by auto
next
  case (again k err e p1 w1)
  then show ?case using uploadAttempt_frame(1,2,4) [OF again.hyps(2)] by auto
qed

lemma upload_loop_path:
  assumes "Run_from E timer cfg (uploadAttempt E script) k err (p, w) = Some (r, p', w')"
  shows "p' = (if created E w w' = [] then p else last (created E w w'))"
  using assms
proof (induction k err "(p, w)" "(r, p', w')" arbitrary: p w rule: Run_from_induct)
  case (exhausted k err)
  then show ?case by simp
next
  case (success k err)
  then show ?case using uploadAttempt_frame(4,5) [OF success.hyps(2)]
    by (auto simp: created_Suc split: sum.splits)
next
  case (noRetry k err e)
  then show ?case using uploadAttempt_frame(4,5) [OF noRetry.hyps(2)]
    by (auto simp: created_Suc split: sum.splits)
next
  case (stopped k err e w1)
  then show ?case using uploadAttempt_frame(4,5) [OF stopped.hyps(2)]
    by (auto simp: created_Suc split: sum.splits)
next
  case (again k err e p1 w1)
  have le: "tempCalls w1 \<le> tempCalls w'"
    using upload_loop_frame [OF again.hyps(5)] by simp
  note f = uploadAttempt_frame(4,5) [OF again.hyps(2)]
  show ?case
    using again.hyps(6) f(2)
    by (simp add: created_step [OF f(1) le] split: sum.splits)
qed

lemma upload_loop_error:
  assumes "Run_from E timer cfg (uploadAttempt E script) k err (p, w) = Some (r, p', w')"
  shows "\<forall>e. r = Some e \<longrightarrow> stagingFailure e"
  using assms
proof (induction k err "(p, w)" "(r, p', w')" arbitrary: p w rule: Run_from_induct)
  case (exhausted k err)
  then show ?case by auto
next
  case (success k err)
  then show ?case by auto
next
  case (noRetry k err e)
  then show ?case using uploadAttempt_frame(6) [OF noRetry.hyps(2)] by auto
next
  case (stopped k err e w1)
  then show ?case using uploadAttempt_frame(6) [OF stopped.hyps(2)] by auto
next
  case (again k err e p1 w1)
  then show ?case by auto
qed

lemma upload_loop_files:
  assumes "Run_from E timer cfg (uploadAttempt E script) k err (p, w) = Some (r, p', w')"
    and "name \<notin> set (created E w w')"
  shows "files w' name = files w name"
  using assms
proof (induction k err "(p, w)" "(r, p', w')" arbitrary: p w rule: Run_from_induct)
  case (exhausted k err)
  then show ?case by simp
next
  case (success k err)
  then show ?case using uploadAttempt_frame(4) [OF success.hyps(2)] uploadAttempt_frame(7) [OF success.hyps(2), of name]
    by (auto simp: created_Suc split: sum.splits)
next
  case (noRetry k err e)
  then show ?case using uploadAttempt_frame(4) [OF noRetry.hyps(2)] uploadAttempt_frame(7) [OF noRetry.hyps(2), of name]
    by (auto simp: created_Suc split: sum.splits)
next
  case (stopped k err e w1)
  then show ?case using uploadAttempt_frame(4) [OF stopped.hyps(2)] uploadAttempt_frame(7) [OF stopped.hyps(2), of name]
    by (auto simp: created_Suc split: sum.splits)
next
  case (again k err e p1 w1)
  have le: "tempCalls w1 \<le> tempCalls w'"
    using upload_loop_frame [OF again.hyps(5)] by simp
  note f = uploadAttempt_frame(4) [OF again.hyps(2)] uploadAttempt_frame(7) [OF again.hyps(2), of name]
  have "files w' name = files (polled w1) name"
    using again.hyps(6) again.prems by (simp add: created_step [OF f(1) le])
  moreover have "files w1 name = files w name"
    using f(2) again.prems by (auto simp: created_step [OF f(1) le])
  ultimately show ?case by simp
qed

subsection \<open>uploadScript and Provision\<close>

lemma uploadRetry_simps [simp]:
  "Tries (uploadRetry c) = UploadRetryAttempts c" "ShouldRetry (uploadRetry c) = None"
  "StartTimeout (uploadRetry c) = UploadTimeout c"
  by (simp_all add: uploadRetry_def)

lemma uploadScript_empty:
  "uploadScript E c [] w =
     Some (([], Some ScriptEmpty),
           Say ''Creating/Uploading Windows Update script to specified target.'' w)"
  by (simp add: uploadScript_def Let_def)

lemma uploadScript_loop:
  assumes "uploadScript E c script w = Some ((path, err), w')" and "script \<noteq> []"
  shows "Run_from E (uploadTimer E) (uploadRetry c) (uploadAttempt E script) 0 None
           ([], Say ''Creating/Uploading Windows Update script to specified target.'' w) =
         Some (err, path, w')"
  using assms by (auto simp: uploadScript_def Run_def Let_def split: option.splits)

lemma uploadScript_frame:
  assumes "uploadScript E c script w = Some ((path, err), w')"
  shows "started w' = started w"
    and "path = (if created E w w' = [] then [] else last (created E w w'))"
    and "script = [] \<Longrightarrow> created E w w' = []"
    and "name \<notin> set (created E w w') \<Longrightarrow> files w' name = files w name"
    and "err = Some e \<Longrightarrow> stagingFailure e"
proof -
  show "started w' = started w"
  proof (cases "script = []")
    case True
    then show ?thesis using assms by (auto simp: uploadScript_empty)
  next
    case False
    then show ?thesis using upload_loop_frame [OF uploadScript_loop [OF assms False]] by simp
  qed
  show "path = (if created E w w' = [] then [] else last (created E w w'))"
  proof (cases "script = []")
    case True
    then show ?thesis using assms by (auto simp: uploadScript_empty)
  next
    case False
    then show ?thesis using upload_loop_path [OF uploadScript_loop [OF assms False]] by simp
  qed
  show "created E w w' = []" if "script = []"
    using that assms by (auto simp: uploadScript_empty)
  show "files w' name = files w name" if "name \<notin> set (created E w w')"
  proof (cases "script = []")
    case True
    then show ?thesis using assms by (auto simp: uploadScript_empty)
  next
    case False
    then show ?thesis
      using upload_loop_files [OF uploadScript_loop [OF assms False], of name] that by simp
  qed
  show "stagingFailure e" if "err = Some e"
  proof (cases "script = []")
    case True
    then show ?thesis using assms that by (auto simp: uploadScript_empty)
  next
    case False
    then show ?thesis
      using upload_loop_error [OF uploadScript_loop [OF assms False]] that by simp
  qed
qed

lemma Provision_staging_failed:
  assumes "uploadScript E c script (Say ''Starting Windows Update Provisioner.'' w) =
             Some ((path, Some e), w1)"
  shows "Provision E c script w = Some (Some e, w1)"
  using assms by (simp add: Provision_def Let_def)

lemma Provision_no_path:
  assumes "uploadScript E c script (Say ''Starting Windows Update Provisioner.'' w) =
             Some (([], None), w1)"
  shows "Provision E c script w = Some (Some FilePathNotPopulated, w1)"
  using assms by (simp add: Provision_def Let_def)

lemma Provision_staged:
  assumes "uploadScript E c script (Say ''Starting Windows Update Provisioner.'' w) =
             Some ((path, None), w1)" and "path \<noteq> []"
  shows "Provision E c script w =
     (case runWindowsUpdate E c path
             (Say (''Successfully created Windows Update script: '' @ path) w1) of
        None \<Rightarrow> None
      | Some ((statusCode, err'), w3) \<Rightarrow>
          if err' \<noteq> None then Some (err', w3)
          else if statusCode \<noteq> 0 then Some (Some (NonZeroExitStatus statusCode), w3)
          else Some (None, w3))"
  using assms by (simp add: Provision_def Let_def)

lemma runWindowsUpdate_first_success:
  assumes "script \<noteq> []"
    and "run_finish (runWithUi E (length (started w))) = RunExited status"
    and "successCode status"
  shows "runWindowsUpdate E c script w =
     Some ((status, None),
       (Say ''Running Windows update...'' w)
         \<lparr>started := started w @ [getWindowsUpdateCommand script]\<rparr>)"
  using assms
  by (simp add: runWindowsUpdate_def runWindowsUpdate_vars_def Run_def Let_def Run_from.simps
      updateAttempt_eq succeeded_def)

lemma runWindowsUpdate_error:
  assumes "runWindowsUpdate E c script w = Some ((code, Some e), w')" and "script \<noteq> []"
  shows "e \<noteq> FilePathEmpty"
proof -
  obtain v where v: "runWindowsUpdate_vars E c script w = Some ((code, Some e), v, w')"
    using assms by (auto simp: runWindowsUpdate_eq)
  show ?thesis
    using update_loop_result [OF runWindowsUpdate_vars_loop(1) [OF v assms(2)]]
    by (auto simp: attemptError_def split: if_splits finish.splits)
qed

lemma runWindowsUpdate_started:
  assumes "runWindowsUpdate E c script w = Some (res, w')"
  shows "\<exists>n. started w' = started w @ replicate n (getWindowsUpdateCommand script)"
proof (cases "script = []")
  case True
  then show ?thesis using assms
    by (auto simp: runWindowsUpdate_eq runWindowsUpdate_vars_empty)
next
  case False
  obtain code err v where v: "runWindowsUpdate_vars E c script w = Some ((code, err), v, w')"
    using assms by (cases res) (auto simp: runWindowsUpdate_eq)
  show ?thesis
    using update_loop_started [OF runWindowsUpdate_vars_loop(1) [OF v False]] by simp
qed

text \<open>Staging does not depend on the bytes of a script that is not empty.\<close>

lemma uploadAttempt_payload:
  assumes "uploadAttempt E s1 (p, w) = (e, p1, w1)" and "sameButFiles w w2"
  shows "\<exists>w3. uploadAttempt E s2 (p, w2) = (e, p1, w3) \<and> sameButFiles w1 w3"
  using assms
  by (auto simp: uploadAttempt_def Let_def sameButFiles_def
      split: sum.splits write_result.splits option.splits)

lemma sameButFiles_selectDone:
  "sameButFiles w w2 \<Longrightarrow> selectDone E timer cfg w2 = selectDone E timer cfg w"
  by (simp add: selectDone_def sameButFiles_def)

lemma sameButFiles_polled: "sameButFiles w w2 \<Longrightarrow> sameButFiles (polled w) (polled w2)"
  by (simp add: polled_def sameButFiles_def)

lemma upload_loop_payload:
  assumes "Run_from E timer cfg (uploadAttempt E s1) k err (p, w) = Some (r, p', w')"
    and "sameButFiles w w2"
  shows "\<exists>w3. Run_from E timer cfg (uploadAttempt E s2) k err (p, w2) = Some (r, p', w3) \<and>
           sameButFiles w' w3"
  using assms
proof (induction k err "(p, w)" "(r, p', w')" arbitrary: p w w2 rule: Run_from_induct)
  case (exhausted k err)
  then show ?case by (subst Run_from.simps) auto
next
  case (success k err)
  obtain w3 where "uploadAttempt E s2 (p, w2) = (None, p', w3)" "sameButFiles w' w3"
    using uploadAttempt_payload [OF success.hyps(2) success.prems] by blast
  then show ?case using success.hyps(1,3) by (subst Run_from.simps) auto
next
  case (noRetry k err e)
  obtain w3 where "uploadAttempt E s2 (p, w2) = (Some e, p', w3)" "sameButFiles w' w3"
    using uploadAttempt_payload [OF noRetry.hyps(2) noRetry.prems] by blast
  then show ?case using noRetry.hyps(1,3,4) by (subst Run_from.simps) auto
next
  case (stopped k err e w1)
  obtain w3 where "uploadAttempt E s2 (p, w2) = (Some e, p', w3)" "sameButFiles w1 w3"
    using uploadAttempt_payload [OF stopped.hyps(2) stopped.prems] by blast
  then show ?case using stopped.hyps(1,3,4,5,6)
    by (subst Run_from.simps) (auto simp: sameButFiles_selectDone sameButFiles_polled)
next
  case (again k err e p1 w1)
  obtain w3 where w3: "uploadAttempt E s2 (p, w2) = (Some e, p1, w3)" "sameButFiles w1 w3"
    using uploadAttempt_payload [OF again.hyps(2) again.prems] by blast
  obtain w4 where "Run_from E timer cfg (uploadAttempt E s2) (k + 1) (Some e) (p1, polled w3) =
           Some (r, p', w4)" "sameButFiles w' w4"
    using again.hyps(6) [OF sameButFiles_polled [OF w3(2)]] by blast
  then show ?case using again.hyps(1,3,4) w3
    by (subst Run_from.simps) (auto simp: sameButFiles_selectDone)
qed

lemma uploadScript_payload_Some:
  assumes "uploadScript E c s1 w = Some (res, w')" and "s1 \<noteq> []" and "s2 \<noteq> []"
  shows "\<exists>w''. uploadScript E c s2 w = Some (res, w'')"
proof -
  obtain path err where res: "res = (path, err)" by (cases res)
  let ?w0 = "Say ''Creating/Uploading Windows Update script to specified target.'' w"
  have "sameButFiles ?w0 ?w0" by (simp add: sameButFiles_def)
  then obtain w3 where "Run_from E (uploadTimer E) (uploadRetry c) (uploadAttempt E s2) 0 None
      ([], ?w0) = Some (err, path, w3)"
    using upload_loop_payload [OF uploadScript_loop [OF assms(1) [unfolded res] assms(2)]]
    by blast
  then show ?thesis
    using assms(3) by (simp add: uploadScript_def Run_def Let_def res)
qed

lemma uploadScript_payload:
  assumes "s1 \<noteq> []" and "s2 \<noteq> []"
  shows "map_option fst (uploadScript E c s1 w) = map_option fst (uploadScript E c s2 w)"
proof (cases "uploadScript E c s1 w")
  case None
  show ?thesis
  proof (cases "uploadScript E c s2 w")
    case n2: None
    then show ?thesis using None by simp
  next
    case (Some y)
    then obtain w'' where "uploadScript E c s1 w = Some (fst y, w'')"
      using uploadScript_payload_Some [of E c s2 w "fst y" "snd y" s1] assms by auto
    then show ?thesis using None by simp
  qed
next
  case (Some y)
  then obtain w'' where "uploadScript E c s2 w = Some (fst y, w'')"
    using uploadScript_payload_Some [of E c s1 w "fst y" "snd y" s2] assms by auto
  then show ?thesis using Some by simp
qed

lemma stagingFailure_text: "stagingFailure e \<Longrightarrow> take 2 (Error e) \<noteq> ''ex''"
proof (cases e)
  case (RetryExhaustedError x)
  then show ?thesis by (cases x) simp_all
qed simp_all

lemma stagingFailure_distinct:
  assumes "stagingFailure e"
  shows "e \<noteq> FilePathNotPopulated \<and> e \<noteq> FilePathEmpty \<and> Error e \<noteq> Error FilePathNotPopulated"
proof -
  have "take 2 (Error FilePathNotPopulated) = ''ex''" by simp
  then have "Error e \<noteq> Error FilePathNotPopulated"
    using stagingFailure_text [OF assms] by metis
  then show ?thesis using assms by auto
qed

lemma Provision_never_FilePathEmpty:
  assumes "Provision E c script w = Some (r, w')"
  shows "r \<noteq> Some FilePathEmpty"
proof -
  obtain path err w1 where up:
    "uploadScript E c script (Say ''Starting Windows Update Provisioner.'' w) = Some ((path, err), w1)"
    using assms by (auto simp: Provision_def Let_def split: option.splits)
  show ?thesis
  proof (cases err)
    case (Some e)
    then show ?thesis
      using Provision_staging_failed [of E c script w path e w1] up assms
        stagingFailure_distinct [OF uploadScript_frame(5) [OF up Some]] by simp
  next
    case None
    show ?thesis
    proof (cases "path = []")
      case True
      then show ?thesis using Provision_no_path [of E c script w w1] up None assms by simp
    next
      case False
      show ?thesis
        using assms runWindowsUpdate_error [of E c path _ _ _ _, OF _ False]
        unfolding Provision_staged [OF up [unfolded None] False]
        by (auto split: option.splits if_splits)
    qed
  qed
qed

text \<open>
  The equations that evaluate an upload in one of the example environments, with
  those of \<open>run_eval\<close>.
\<close>

lemmas stage_eval =
  Provision_def uploadScript_def uploadAttempt_def created_def

text \<open>
  C5. With an empty script \<open>uploadScript\<close> returns the error of the empty script at
  once, before the retry loop: the world is the one it was called in but for the message
  given to \<open>ui.Say\<close>, so no temporary file was asked for, no \<open>select\<close> of a retry loop
  was reached, no command went to the communicator and no file changed; \<open>Provision\<close>
  returns this error after its own message and that of \<open>uploadScript\<close>.
\<close>

theorem uploadScript_empty_script:
  "uploadScript E c [] w =
     Some (([], Some ScriptEmpty),
           Say ''Creating/Uploading Windows Update script to specified target.'' w)
   \<and> Provision E c [] w =
     Some (Some ScriptEmpty,
           w\<lparr>said := said w @ [''Starting Windows Update Provisioner.'',
                ''Creating/Uploading Windows Update script to specified target.'']\<rparr>)
   \<and> tempCalls (Say ''Creating/Uploading Windows Update script to specified target.'' w) = tempCalls w
   \<and> polls (Say ''Creating/Uploading Windows Update script to specified target.'' w) = polls w
   \<and> started (Say ''Creating/Uploading Windows Update script to specified target.'' w) = started w
   \<and> files (Say ''Creating/Uploading Windows Update script to specified target.'' w) = files w"
  by (simp add: uploadScript_empty Provision_def Let_def Say_def)

text \<open>
  C6. After \<open>uploadScript\<close>: if it returned no error and an empty path,
  \<open>Provision\<close> returns the error of the unpopulated path in the world \<open>uploadScript\<close>
  left, so nothing was said or run after staging; an error of \<open>uploadScript\<close> is
  returned as it is, it is one of the errors of staging, and neither its value nor its
  text is that of the unpopulated path; and \<open>Provision\<close> never returns the error that
  \<open>runWindowsUpdate\<close> gives for an empty path, which it would if it called it with one.
\<close>

theorem Provision_empty_location:
  assumes "uploadScript E c script (Say ''Starting Windows Update Provisioner.'' w) =
             Some ((path, err), w1)"
  shows "(err = None \<and> path = [] \<longrightarrow>
            Provision E c script w = Some (Some FilePathNotPopulated, w1))
       \<and> (\<forall>e. err = Some e \<longrightarrow>
            Provision E c script w = Some (Some e, w1) \<and> stagingFailure e \<and>
            e \<noteq> FilePathNotPopulated \<and> Error e \<noteq> Error FilePathNotPopulated)
       \<and> (\<forall>r w'. Provision E c script w = Some (r, w') \<longrightarrow> r \<noteq> Some FilePathEmpty)"
proof (intro conjI allI impI)
  assume "err = None \<and> path = []"
  then show "Provision E c script w = Some (Some FilePathNotPopulated, w1)"
    using Provision_no_path assms by simp
next
  fix e assume e: "err = Some e"
  show "Provision E c script w = Some (Some e, w1)"
    using Provision_staging_failed assms e by simp
  show "stagingFailure e" by (rule uploadScript_frame(5) [OF assms e])
  then show "e \<noteq> FilePathNotPopulated" "Error e \<noteq> Error FilePathNotPopulated"
    using stagingFailure_distinct by simp_all
next
  fix r w' assume "Provision E c script w = Some (r, w')"
  then show "r \<noteq> Some FilePathEmpty" by (rule Provision_never_FilePathEmpty)
qed

theorem Provision_empty_location_witness:
  "uploadScript namelessEnv preparedConfig [0x41] (Say ''Starting Windows Update Provisioner.'' newWorld) =
     Some (([], None),
       \<lparr>said = [''Starting Windows Update Provisioner.'',
                ''Creating/Uploading Windows Update script to specified target.''],
        files = [[] \<mapsto> [0x41]], tempCalls = 1, started = [], polls = 0\<rparr>)
   \<and> Provision namelessEnv preparedConfig [0x41] newWorld =
     Some (Some FilePathNotPopulated,
       \<lparr>said = [''Starting Windows Update Provisioner.'',
                ''Creating/Uploading Windows Update script to specified target.''],
        files = [[] \<mapsto> [0x41]], tempCalls = 1, started = [], polls = 0\<rparr>)
   \<and> uploadScript fullDiskEnv (preparedConfig\<lparr>UploadRetryAttempts := 1\<rparr>) [0x41]
        (Say ''Starting Windows Update Provisioner.'' newWorld) =
     Some ((tempPath, Some (RetryExhaustedError (Some (WritingTempFile ''no space left on device'')))),
       \<lparr>said = [''Starting Windows Update Provisioner.'',
                ''Creating/Uploading Windows Update script to specified target.''],
        files = [tempPath \<mapsto> []], tempCalls = 1, started = [], polls = 1\<rparr>)
   \<and> Provision fullDiskEnv (preparedConfig\<lparr>UploadRetryAttempts := 1\<rparr>) [0x41] newWorld =
     Some (Some (RetryExhaustedError (Some (WritingTempFile ''no space left on device''))),
       \<lparr>said = [''Starting Windows Update Provisioner.'',
                ''Creating/Uploading Windows Update script to specified target.''],
        files = [tempPath \<mapsto> []], tempCalls = 1, started = [], polls = 1\<rparr>)
   \<and> Error (RetryExhaustedError (Some (WritingTempFile ''no space left on device''))) \<noteq>
       Error FilePathNotPopulated
   \<and> Some FilePathNotPopulated \<noteq> Some FilePathEmpty"
proof -
  have u1: "uploadScript namelessEnv preparedConfig [0x41] (Say ''Starting Windows Update Provisioner.'' newWorld) =
     Some (([], None),
       \<lparr>said = [''Starting Windows Update Provisioner.'',
                ''Creating/Uploading Windows Update script to specified target.''],
        files = [[] \<mapsto> [0x41]], tempCalls = 1, started = [], polls = 0\<rparr>)"
    by (simp add: run_eval stage_eval)
  have u2: "uploadScript fullDiskEnv (preparedConfig\<lparr>UploadRetryAttempts := 1\<rparr>) [0x41]
        (Say ''Starting Windows Update Provisioner.'' newWorld) =
     Some ((tempPath, Some (RetryExhaustedError (Some (WritingTempFile ''no space left on device'')))),
       \<lparr>said = [''Starting Windows Update Provisioner.'',
                ''Creating/Uploading Windows Update script to specified target.''],
        files = [tempPath \<mapsto> []], tempCalls = 1, started = [], polls = 1\<rparr>)"
    by (simp add: run_eval stage_eval)
  note a = Provision_empty_location [OF u1]
  note b = Provision_empty_location [OF u2]
  have p1: "Provision namelessEnv preparedConfig [0x41] newWorld =
     Some (Some FilePathNotPopulated,
       \<lparr>said = [''Starting Windows Update Provisioner.'',
                ''Creating/Uploading Windows Update script to specified target.''],
        files = [[] \<mapsto> [0x41]], tempCalls = 1, started = [], polls = 0\<rparr>)"
    using a by blast
  have p2: "Provision fullDiskEnv (preparedConfig\<lparr>UploadRetryAttempts := 1\<rparr>) [0x41] newWorld =
     Some (Some (RetryExhaustedError (Some (WritingTempFile ''no space left on device''))),
       \<lparr>said = [''Starting Windows Update Provisioner.'',
                ''Creating/Uploading Windows Update script to specified target.''],
        files = [tempPath \<mapsto> []], tempCalls = 1, started = [], polls = 1\<rparr>)"
    using b by blast
  have p3: "Error (RetryExhaustedError (Some (WritingTempFile ''no space left on device''))) \<noteq>
       Error FilePathNotPopulated"
    using b by blast
  have p4: "Some FilePathNotPopulated \<noteq> Some FilePathEmpty"
    using a p1 by blast
  show ?thesis using u1 p1 u2 p2 p3 p4 by (intro conjI)
qed

text \<open>
  C8, as amended. When \<open>uploadScript\<close> returns an error, the path it returns with it
  is the name of the last temporary file that the attempts of the call created, and is
  empty when they created none, which is so for an empty script.
\<close>

theorem uploadScript_failed_location:
  assumes "uploadScript E c script w = Some ((path, Some e), w')"
  shows "path = (if script = [] \<or> created E w w' = [] then [] else last (created E w w'))"
  using uploadScript_frame(2,3) [OF assms] by auto

theorem uploadScript_failed_location_witness:
  "uploadScript fullDiskEnv (preparedConfig\<lparr>UploadRetryAttempts := 1\<rparr>) [0x41] newWorld =
     Some ((tempPath, Some (RetryExhaustedError (Some (WritingTempFile ''no space left on device'')))),
       \<lparr>said = [''Creating/Uploading Windows Update script to specified target.''],
        files = [tempPath \<mapsto> []], tempCalls = 1, started = [], polls = 1\<rparr>)
   \<and> tempPath =
       (if [0x41] = ([] :: byte list) \<or> created fullDiskEnv newWorld
            \<lparr>said = [''Creating/Uploading Windows Update script to specified target.''],
             files = [tempPath \<mapsto> []], tempCalls = 1, started = [], polls = 1\<rparr> = []
        then []
        else last (created fullDiskEnv newWorld
            \<lparr>said = [''Creating/Uploading Windows Update script to specified target.''],
             files = [tempPath \<mapsto> []], tempCalls = 1, started = [], polls = 1\<rparr>))"
proof -
  have up: "uploadScript fullDiskEnv (preparedConfig\<lparr>UploadRetryAttempts := 1\<rparr>) [0x41] newWorld =
     Some ((tempPath, Some (RetryExhaustedError (Some (WritingTempFile ''no space left on device'')))),
       \<lparr>said = [''Creating/Uploading Windows Update script to specified target.''],
        files = [tempPath \<mapsto> []], tempCalls = 1, started = [], polls = 1\<rparr>)"
    by (simp add: run_eval stage_eval)
  show ?thesis
    by (rule conjI [OF up uploadScript_failed_location [OF up]])
qed

text \<open>
  The claim C8 as it was stated fails when an attempt creates its file and then fails:
  the write fails, the one try is used up, and \<open>uploadScript\<close> returns the error
  together with the name of the file.
\<close>

theorem uploadScript_failed_location_counterexample:
  "map_option fst
     (uploadScript fullDiskEnv (preparedConfig\<lparr>UploadRetryAttempts := 1\<rparr>) [0x41] newWorld) =
     Some (tempPath, Some (RetryExhaustedError (Some (WritingTempFile ''no space left on device''))))
   \<and> tempPath \<noteq> []"
  by (simp add: run_eval stage_eval)

text \<open>
  C9. \<open>uploadScript\<close> leaves the list of commands given to the communicator as it
  was and changes no local file but the temporary files its attempts created; the
  commands \<open>Provision\<close> gives to the communicator are all \<open>getWindowsUpdateCommand\<close>
  of the path \<open>uploadScript\<close> returned; and the path and error \<open>uploadScript\<close> returns
  are the same for any two scripts that are not empty.
\<close>

theorem uploadScript_local:
  "(uploadScript E c script w = Some (res, w1) \<longrightarrow>
      started w1 = started w \<and>
      (\<forall>name. name \<notin> set (created E w w1) \<longrightarrow> files w1 name = files w name))
   \<and> (uploadScript E c script (Say ''Starting Windows Update Provisioner.'' w) =
         Some ((path, err), w2) \<and>
       Provision E c script w = Some (r, w') \<longrightarrow>
      (\<exists>n. started w' = started w @ replicate n (getWindowsUpdateCommand path)))
   \<and> (script \<noteq> [] \<and> script' \<noteq> [] \<longrightarrow>
      map_option fst (uploadScript E c script w) = map_option fst (uploadScript E c script' w))"
proof (intro conjI impI allI)
  assume a: "uploadScript E c script w = Some (res, w1)"
  obtain p e where res: "res = (p, e)" by (cases res)
  show "started w1 = started w"
    using uploadScript_frame(1) [OF a [unfolded res]] .
  fix name assume "name \<notin> set (created E w w1)"
  then show "files w1 name = files w name"
    using uploadScript_frame(4) [OF a [unfolded res]] by simp
next
  assume a: "uploadScript E c script (Say ''Starting Windows Update Provisioner.'' w) =
         Some ((path, err), w2) \<and> Provision E c script w = Some (r, w')"
  then have up: "uploadScript E c script (Say ''Starting Windows Update Provisioner.'' w) =
         Some ((path, err), w2)" and pr: "Provision E c script w = Some (r, w')" by simp_all
  have s2: "started w2 = started w" using uploadScript_frame(1) [OF up] by simp
  show "\<exists>n. started w' = started w @ replicate n (getWindowsUpdateCommand path)"
  proof (cases "err = None \<and> path \<noteq> []")
    case True
    then obtain res w3 where ru: "runWindowsUpdate E c path
             (Say (''Successfully created Windows Update script: '' @ path) w2) = Some (res, w3)"
       and w3: "w' = w3"
      using pr Provision_staged [of E c script w path w2] up
      by (auto split: option.splits if_splits)
    show ?thesis using runWindowsUpdate_started [OF ru] s2 w3 by simp
  next
    case False
    then have "w' = w2"
      using pr up Provision_no_path [of E c script w w2]
        Provision_staging_failed [of E c script w path _ w2]
      by (cases err) auto
    then show ?thesis using s2 by (auto intro: exI [of _ 0])
  qed
next
  assume "script \<noteq> [] \<and> script' \<noteq> []"
  then show "map_option fst (uploadScript E c script w) = map_option fst (uploadScript E c script' w)"
    using uploadScript_payload by blast
qed

theorem uploadScript_local_witness:
  "uploadScript calmEnv preparedConfig [0x41] (Say ''Starting Windows Update Provisioner.'' newWorld) =
     Some ((tempPath, None),
       \<lparr>said = [''Starting Windows Update Provisioner.'',
                ''Creating/Uploading Windows Update script to specified target.''],
        files = [tempPath \<mapsto> [0x41]], tempCalls = 1, started = [], polls = 0\<rparr>)
   \<and> Provision calmEnv preparedConfig [0x41] newWorld =
     Some (None,
       \<lparr>said = [''Starting Windows Update Provisioner.'',
                ''Creating/Uploading Windows Update script to specified target.'',
                ''Successfully created Windows Update script: '' @ tempPath,
                ''Running Windows update...''],
        files = [tempPath \<mapsto> [0x41]], tempCalls = 1,
        started = [getWindowsUpdateCommand tempPath], polls = 0\<rparr>)
   \<and> started \<lparr>said = [''Starting Windows Update Provisioner.'',
                ''Creating/Uploading Windows Update script to specified target.''],
        files = [tempPath \<mapsto> [0x41]], tempCalls = 1, started = [], polls = 0\<rparr> =
       started (Say ''Starting Windows Update Provisioner.'' newWorld)
   \<and> ''/etc/hosts'' \<notin> set (created calmEnv (Say ''Starting Windows Update Provisioner.'' newWorld)
        \<lparr>said = [''Starting Windows Update Provisioner.'',
                ''Creating/Uploading Windows Update script to specified target.''],
        files = [tempPath \<mapsto> [0x41]], tempCalls = 1, started = [], polls = 0\<rparr>)
   \<and> files \<lparr>said = [''Starting Windows Update Provisioner.'',
                ''Creating/Uploading Windows Update script to specified target.''],
        files = [tempPath \<mapsto> [0x41]], tempCalls = 1, started = [], polls = 0\<rparr> ''/etc/hosts'' =
       files (Say ''Starting Windows Update Provisioner.'' newWorld) ''/etc/hosts''
   \<and> (\<exists>n. [getWindowsUpdateCommand tempPath] = replicate n (getWindowsUpdateCommand tempPath))
   \<and> [0x41] \<noteq> ([] :: byte list) \<and> [0x42, 0x43] \<noteq> ([] :: byte list)
   \<and> map_option fst (uploadScript calmEnv preparedConfig [0x41] newWorld) =
       map_option fst (uploadScript calmEnv preparedConfig [0x42, 0x43] newWorld)"
proof -
  have u: "uploadScript calmEnv preparedConfig [0x41] (Say ''Starting Windows Update Provisioner.'' newWorld) =
     Some ((tempPath, None),
       \<lparr>said = [''Starting Windows Update Provisioner.'',
                ''Creating/Uploading Windows Update script to specified target.''],
        files = [tempPath \<mapsto> [0x41]], tempCalls = 1, started = [], polls = 0\<rparr>)"
    by (simp add: run_eval stage_eval)
  have p: "Provision calmEnv preparedConfig [0x41] newWorld =
     Some (None,
       \<lparr>said = [''Starting Windows Update Provisioner.'',
                ''Creating/Uploading Windows Update script to specified target.'',
                ''Successfully created Windows Update script: '' @ tempPath,
                ''Running Windows update...''],
        files = [tempPath \<mapsto> [0x41]], tempCalls = 1,
        started = [getWindowsUpdateCommand tempPath], polls = 0\<rparr>)"
    by (simp add: run_eval stage_eval)
  have ne: "[0x41] \<noteq> ([] :: byte list) \<and> [0x42, 0x43] \<noteq> ([] :: byte list)" by simp
  have a: "started \<lparr>said = [''Starting Windows Update Provisioner.'',
                ''Creating/Uploading Windows Update script to specified target.''],
        files = [tempPath \<mapsto> [0x41]], tempCalls = 1, started = [], polls = 0\<rparr> =
       started (Say ''Starting Windows Update Provisioner.'' newWorld)"
    using uploadScript_local [THEN conjunct1, rule_format, OF u] by blast
  have n: "''/etc/hosts'' \<notin> set (created calmEnv (Say ''Starting Windows Update Provisioner.'' newWorld)
        \<lparr>said = [''Starting Windows Update Provisioner.'',
                ''Creating/Uploading Windows Update script to specified target.''],
        files = [tempPath \<mapsto> [0x41]], tempCalls = 1, started = [], polls = 0\<rparr>)"
    by (simp add: run_eval stage_eval)
  have f: "files \<lparr>said = [''Starting Windows Update Provisioner.'',
                ''Creating/Uploading Windows Update script to specified target.''],
        files = [tempPath \<mapsto> [0x41]], tempCalls = 1, started = [], polls = 0\<rparr> ''/etc/hosts'' =
       files (Say ''Starting Windows Update Provisioner.'' newWorld) ''/etc/hosts''"
    using uploadScript_local [THEN conjunct1, rule_format, OF u] n by blast
  have b: "\<exists>n. [getWindowsUpdateCommand tempPath] = replicate n (getWindowsUpdateCommand tempPath)"
    using uploadScript_local [THEN conjunct2, THEN conjunct1, rule_format, OF conjI [OF u p]]
    by (simp add: newWorld_def)
  have c: "map_option fst (uploadScript calmEnv preparedConfig [0x41] newWorld) =
       map_option fst (uploadScript calmEnv preparedConfig [0x42, 0x43] newWorld)"
    using uploadScript_local [THEN conjunct2, THEN conjunct2, rule_format, OF ne] .
  show ?thesis using u p a n f b ne [THEN conjunct1] ne [THEN conjunct2] c by (intro conjI)
qed

text \<open>
  C1. When staging succeeded with a path that is not empty and the first remote run
  ends with status 101 (or 2147942501), \<open>Provision\<close> makes this one run and no other,
  and returns the error of the status code that is not 0: \<open>runWindowsUpdate\<close> answers
  the status with nil, and \<open>Provision\<close> then rejects every status but 0.
\<close>

theorem Provision_restart_pending:
  assumes "uploadScript E c script (Say ''Starting Windows Update Provisioner.'' w) =
             Some ((path, None), w1)"
    and "path \<noteq> []"
    and "run_finish (runWithUi E (length (started w1))) = RunExited status"
    and "status = 101 \<or> status = 2147942501"
  shows "\<exists>w'. Provision E c script w = Some (Some (NonZeroExitStatus status), w') \<and>
           started w' = started w1 @ [getWindowsUpdateCommand path]"
proof -
  have s: "successCode status" "status \<noteq> 0"
    using assms(4) by (auto simp: successCode_def)
  have "runWindowsUpdate E c path (Say (''Successfully created Windows Update script: '' @ path) w1) =
     Some ((status, None),
       (Say ''Running Windows update...'' (Say (''Successfully created Windows Update script: '' @ path) w1))
         \<lparr>started := started (Say (''Successfully created Windows Update script: '' @ path) w1)
             @ [getWindowsUpdateCommand path]\<rparr>)"
    by (rule runWindowsUpdate_first_success [OF assms(2) _ s(1)]) (simp add: assms(3))
  then show ?thesis
    using s(2) by (simp add: Provision_staged [OF assms(1,2)])
qed

theorem Provision_restart_pending_witness:
  "uploadScript (exitEnv 101) preparedConfig [0x41] (Say ''Starting Windows Update Provisioner.'' newWorld) =
     Some ((tempPath, None),
       \<lparr>said = [''Starting Windows Update Provisioner.'',
                ''Creating/Uploading Windows Update script to specified target.''],
        files = [tempPath \<mapsto> [0x41]], tempCalls = 1, started = [], polls = 0\<rparr>)
   \<and> tempPath \<noteq> []
   \<and> run_finish (runWithUi (exitEnv 101) (length (started
        \<lparr>said = [''Starting Windows Update Provisioner.'',
                ''Creating/Uploading Windows Update script to specified target.''],
        files = [tempPath \<mapsto> [0x41]], tempCalls = 1, started = [], polls = 0\<rparr>))) = RunExited 101
   \<and> (\<exists>w'. Provision (exitEnv 101) preparedConfig [0x41] newWorld =
          Some (Some (NonZeroExitStatus 101), w') \<and>
          started w' = [getWindowsUpdateCommand tempPath])"
proof -
  have up: "uploadScript (exitEnv 101) preparedConfig [0x41] (Say ''Starting Windows Update Provisioner.'' newWorld) =
     Some ((tempPath, None),
       \<lparr>said = [''Starting Windows Update Provisioner.'',
                ''Creating/Uploading Windows Update script to specified target.''],
        files = [tempPath \<mapsto> [0x41]], tempCalls = 1, started = [], polls = 0\<rparr>)"
    by (simp add: run_eval stage_eval)
  have p: "tempPath \<noteq> []" by (simp add: tempPath_def)
  have r: "run_finish (runWithUi (exitEnv 101) (length (started
        \<lparr>said = [''Starting Windows Update Provisioner.'',
                ''Creating/Uploading Windows Update script to specified target.''],
        files = [tempPath \<mapsto> [0x41]], tempCalls = 1, started = [], polls = 0\<rparr>))) = RunExited 101"
    by (simp add: run_eval)
  show ?thesis
    using up p r Provision_restart_pending [OF up p r] by simp
qed

subsection \<open>Prepare\<close>

lemma UpdateRetryAttempts_applyDefaults:
  "UpdateRetryAttempts (applyDefaults c) =
     (if UpdateRetryAttempts c = 0 then 5 else UpdateRetryAttempts c)"
  by (simp add: applyDefaults_def Let_def DefaultUpdateRetryAttempts_def)

text \<open>After \<open>Prepare\<close> neither number of attempts is 0, so both retry loops are bounded.\<close>

lemma applyDefaults_attempts:
  "UpdateRetryAttempts (applyDefaults c) \<noteq> 0" "UploadRetryAttempts (applyDefaults c) \<noteq> 0"
  by (simp_all add: applyDefaults_def Let_def DefaultUpdateRetryAttempts_def
      DefaultUploadRetryAttempts_def)

text \<open>
  C7. When \<open>update_retry_attempts\<close> is not given (it decodes to 0), \<open>Prepare\<close> sets it
  to \<open>DefaultUpdateRetryAttempts\<close>, which is 5 and not 3, the number the comment on the
  field \<open>UpdateRetryAttempts\<close> of \<open>Config\<close> gives; the constant
  \<open>DefaultUpdateAttempts\<close>, which is 3, is not used by \<open>Prepare\<close>.
\<close>

theorem Prepare_default_UpdateRetryAttempts:
  "UpdateRetryAttempts (fst (Prepare absFails parseFails (c\<lparr>UpdateRetryAttempts := 0\<rparr>) None)) =
     DefaultUpdateRetryAttempts
   \<and> DefaultUpdateRetryAttempts = 5 \<and> DefaultUpdateRetryAttempts \<noteq> 3 \<and> DefaultUpdateAttempts = 3"
  by (simp add: Prepare_def Let_def UpdateRetryAttempts_applyDefaults DefaultUpdateAttempts_def
      DefaultUpdateRetryAttempts_def)

lemma runes_ascii: "list_all (\<lambda>b. b < 0x80) bs \<Longrightarrow> runes bs = map uint bs"
  by (induction bs) auto

lemma Encode_ascii:
  "list_all (\<lambda>r. 0 \<le> r \<and> r < 0x80) rs \<Longrightarrow> Encode rs = map word_of_int rs"
  by (induction rs) (auto simp: RuneLen_def)

lemma ucast_low: "(ucast (ucast b :: 16 word) :: byte) = b"
  by (rule bit_word_eqI) (auto simp: bit_simps dest: bit_imp_le_length)

lemma ucast_high: "(ucast (drop_bit 8 (ucast (b :: byte) :: 16 word)) :: byte) = 0"
  by (rule bit_word_eqI) (auto simp: bit_simps dest: bit_imp_le_length)

lemma unitsLe_bytes:
  "unitsLe (map word_of_int (map uint bs)) = concat (map (\<lambda>b. [b, 0]) bs)"
  by (induction bs) (simp_all add: ucast_low ucast_high)

lemma of_char_byte_less: "(of_char c :: nat) \<le> 0x7E \<Longrightarrow> (of_char c :: byte) < 0x80"
proof -
  assume h: "(of_char c :: nat) \<le> 0x7E"
  have "(of_char c :: byte) = word_of_nat (of_char c)" by (simp add: of_nat_of_char)
  then have "unat (of_char c :: byte) = of_char c" using h
    by (simp add: unat_of_nat)
  then show ?thesis using h by (simp add: word_less_nat_alt)
qed

text \<open>On printable ASCII the code's encoding is the specification's byte layout.\<close>

lemma encodeUtf16Le_ascii:
  assumes "printable_ascii s"
  shows "encodeUtf16Le s = utf16le_bytes s"
proof -
  have a: "list_all (\<lambda>b. b < 0x80) (bytes_of s)"
    using assms by (auto simp: printable_ascii_def bytes_of_def list_all_iff of_char_byte_less)
  have b: "list_all (\<lambda>r. 0 \<le> r \<and> r < 0x80) (map uint (bytes_of s))"
    using a by (auto simp: list_all_iff word_less_def)
  have "encodeUtf16Le s = concat (map (\<lambda>b. [b, 0]) (bytes_of s))"
    unfolding encodeUtf16Le_def runes_ascii [OF a] Encode_ascii [OF b] unitsLe_bytes ..
  then show ?thesis
    by (simp add: utf16le_bytes_def bytes_of_def comp_def)
qed

text \<open>Four letters carry the 24 bits of three bytes.\<close>

lemma and_3F: "x AND (0x3F :: 64 word) = take_bit 6 x"
  by (simp add: take_bit_eq_mask mask_eq_exp_minus_1)

lemma take_bit_split:
  "push_bit k (take_bit m (drop_bit k x)) OR take_bit k x = take_bit (k + m) (x :: 64 word)"
  by (rule bit_word_eqI) (auto simp: bit_simps)

lemma sextets_take_bit:
  "sextets (take_bit 6 (drop_bit 18 v)) (take_bit 6 (drop_bit 12 v)) (take_bit 6 (drop_bit 6 v))
     (take_bit 6 v) = take_bit 24 v"
proof -
  have "push_bit 6 (take_bit 6 (drop_bit 6 v)) OR take_bit 6 v = take_bit 12 v"
    using take_bit_split [of 6 6 v] by simp
  moreover have "push_bit 12 (take_bit 6 (drop_bit 12 v)) OR take_bit 12 v = take_bit 18 v"
    using take_bit_split [of 12 6 v] by simp
  moreover have "push_bit 18 (take_bit 6 (drop_bit 18 v)) OR take_bit 18 v = take_bit 24 v"
    using take_bit_split [of 18 6 v] by simp
  ultimately show ?thesis
    by (simp add: sextets_def or.assoc)
qed

lemma take_bit_val3: "take_bit 24 (val3 a b c) = val3 a b c"
  unfolding val3_def
  by (rule bit_word_eqI) (auto simp: bit_simps dest: bit_imp_le_length)

lemma take_bit_val2: "take_bit 24 (val2 a b) = val2 a b" "take_bit 6 (val2 a b) = 0"
  unfolding val2_def
  by (rule bit_word_eqI; auto simp: bit_simps dest: bit_imp_le_length)+

lemma take_bit_val1: "take_bit 24 (val1 a) = val1 a" "take_bit 6 (val1 a) = 0"
   "take_bit 6 (drop_bit 6 (val1 a)) = 0"
  unfolding val1_def
  by (rule bit_word_eqI; auto simp: bit_simps dest: bit_imp_le_length)+

lemma sextets_val3:
  "sextets (drop_bit 18 (val3 a b c) AND 0x3F) (drop_bit 12 (val3 a b c) AND 0x3F)
     (drop_bit 6 (val3 a b c) AND 0x3F) (val3 a b c AND 0x3F) = val3 a b c"
  by (simp only: and_3F sextets_take_bit take_bit_val3)

lemma sextets_val2:
  "sextets (drop_bit 18 (val2 a b) AND 0x3F) (drop_bit 12 (val2 a b) AND 0x3F)
     (drop_bit 6 (val2 a b) AND 0x3F) 0 = val2 a b"
  using sextets_take_bit [of "val2 a b"] by (simp only: and_3F take_bit_val2)

lemma sextets_val1:
  "sextets (drop_bit 18 (val1 a) AND 0x3F) (drop_bit 12 (val1 a) AND 0x3F) 0 0 = val1 a"
  using sextets_take_bit [of "val1 a"] by (simp only: and_3F take_bit_val1)


lemma val3_bytes:
  "ucast (drop_bit 16 (val3 a b c)) = a" "ucast (drop_bit 8 (val3 a b c)) = b" "ucast (val3 a b c) = c"
  unfolding val3_def
  by (rule bit_word_eqI; auto simp: bit_simps dest: bit_imp_le_length)+

lemma val2_bytes:
  "ucast (drop_bit 16 (val2 a b)) = a" "ucast (drop_bit 8 (val2 a b)) = b"
  unfolding val2_def
  by (rule bit_word_eqI; auto simp: bit_simps dest: bit_imp_le_length)+

lemma val1_bytes:
  "ucast (drop_bit 16 (val1 a)) = a"
  unfolding val1_def
  by (rule bit_word_eqI; auto simp: bit_simps dest: bit_imp_le_length)

lemma distinct_encodeStd: "distinct encodeStd"
  by (simp add: encodeStd_def)

lemma length_encodeStd: "length encodeStd = 64"
  by (simp add: encodeStd_def)

lemma pad_notin: "CHR ''='' \<notin> set encodeStd"
  by (simp add: encodeStd_def)

lemma unat_sextet: "unat (x AND (0x3F :: 64 word)) < 64"
proof -
  have "unat (x AND 0x3F) \<le> unat (0x3F :: 64 word)"
    by (rule word_and_le1 [THEN word_le_nat_alt [THEN iffD1]])
  then show ?thesis by simp
qed

lemma b64_value_encodeChar:
  assumes "unat i < 64"
  shows "b64_value (encodeChar i) = Some i" and "encodeChar i \<noteq> CHR ''=''"
proof -
  have n: "unat i < length encodeStd" using assms by (simp add: length_encodeStd)
  then have mem: "encodeStd ! unat i \<in> set encodeStd" by simp
  have "takeWhile (\<lambda>d. d \<noteq> encodeStd ! unat i) encodeStd = take (unat i) encodeStd"
    using n distinct_encodeStd
    by (intro takeWhile_eq_take_P_nth) (auto simp: nth_eq_iff_index_eq)
  then have "length (takeWhile (\<lambda>d. d \<noteq> encodeStd ! unat i) encodeStd) = unat i"
    using n by simp
  then show "b64_value (encodeChar i) = Some i"
    using mem by (simp add: b64_value_def encodeChar_def)
  show "encodeChar i \<noteq> CHR ''=''"
    using mem pad_notin by (auto simp: encodeChar_def)
qed

lemmas b64s = b64_value_encodeChar [OF unat_sextet]

lemma decode_b64_EncodeToString: "decode_b64 (EncodeToString bs) = Some bs"
proof (induction bs rule: EncodeToString.induct)
  case (1 a b c src)
  then show ?case
    by (simp add: b64s sextets_val3 val3_bytes)
next
  case (2 a b)
  then show ?case by (simp add: b64s sextets_val2 val2_bytes)
next
  case (3 a)
  then show ?case by (simp add: b64s sextets_val1 val1_bytes)
next
  case 4
  then show ?case by simp
qed

text \<open>
  C3. For a printable ASCII string \<open>s\<close>, the command line is the fixed words followed
  by the base64 text of the UTF-16LE bytes of \<open>s\<close> (two bytes a character, low byte
  first, no byte order mark), and decoding that text as base64 gives back these bytes.
\<close>

theorem getWindowsUpdateCommand_utf16le_base64:
  assumes "printable_ascii s"
  shows "getWindowsUpdateCommand s = commandPrefix @ encodedCommand (getWindowsUpdateCommand s)
    \<and> encodedCommand (getWindowsUpdateCommand s) = EncodeToString (utf16le_bytes s)
    \<and> decode_b64 (encodedCommand (getWindowsUpdateCommand s)) = Some (utf16le_bytes s)"
  using assms
  by (simp add: getWindowsUpdateCommand_def encodedCommand_def encodeUtf16Le_ascii
      decode_b64_EncodeToString)

theorem getWindowsUpdateCommand_utf16le_base64_witness:
  "printable_ascii (CHR 0x22 # ''/tmp/Invoke-WinUpdate1.ps1'' @ [CHR 0x22, CHR 0x27])
   \<and> decode_b64 (encodedCommand (getWindowsUpdateCommand
         (CHR 0x22 # ''/tmp/Invoke-WinUpdate1.ps1'' @ [CHR 0x22, CHR 0x27])))
       = Some (utf16le_bytes (CHR 0x22 # ''/tmp/Invoke-WinUpdate1.ps1'' @ [CHR 0x22, CHR 0x27]))"
proof -
  have p: "printable_ascii (CHR 0x22 # ''/tmp/Invoke-WinUpdate1.ps1'' @ [CHR 0x22, CHR 0x27])"
    by (simp add: printable_ascii_def)
  show ?thesis
    using p getWindowsUpdateCommand_utf16le_base64 [OF p, THEN conjunct2, THEN conjunct2]
    by (rule conjI)
qed

end
